theory Spec2Isabelle
  imports Main
begin

section \<open>The doris-webhook service\<close>

text \<open>
  \<^verbatim>\<open>main.go\<close> holds two revisions of the service. The first is written against
  \<^verbatim>\<open>net/http\<close> (hand-written CORS headers, a validating middleware, the package-level
  function \<^verbatim>\<open>writeToDoris\<close>); the second is written against gin (struct-tag binding,
  the method \<^verbatim>\<open>DorisClient.WriteToDoris\<close>, an \<^verbatim>\<open>event_time\<close> column). Both are
  embedded. A definition keeps the name of the Go function it embeds; where the two
  revisions use the same name for different code, the second revision's definition
  carries the receiver's name (\<open>App_videoHandler\<close>) or the suffix \<open>_gin\<close>.

  Go strings are byte sequences, and so is \<^typ>\<open>string\<close>. Log output is left out except
  for the start-up record that carries the password.
\<close>

subsection \<open>Process environment\<close>

type_synonym environ = "string \<rightharpoonup> string"

text \<open>\<^verbatim>\<open>os.Getenv\<close>: the value of the variable, empty when it is not present.\<close>

definition os_Getenv :: "environ \<Rightarrow> string \<Rightarrow> string" where
  "os_Getenv env key = (case env key of None \<Rightarrow> [] | Some v \<Rightarrow> v)"

text \<open>\<^verbatim>\<open>getEnv\<close> (the same text in both revisions).\<close>

definition getEnv :: "environ \<Rightarrow> string \<Rightarrow> string \<Rightarrow> string" where
  "getEnv env key defaultValue =
     (let v = os_Getenv env key in if v \<noteq> [] then v else defaultValue)"

text \<open>\<^verbatim>\<open>strings.HasPrefix\<close>.\<close>

definition HasPrefix :: "string \<Rightarrow> string \<Rightarrow> bool" where
  "HasPrefix s pre = (take (length pre) s = pre)"

subsection \<open>Configuration\<close>

definition videoTable :: string where
  "videoTable = ''video_metrics''"

record Config =
  BEHTTP :: string
  DB :: string
  User :: string
  Passwd :: string

datatype config_error =
    BE_HTTP_required
  | BE_HTTP_malformed string
  | PASSWORD_unset

text \<open>\<^verbatim>\<open>loadConfig\<close> of the first revision.\<close>

definition loadConfig :: "environ \<Rightarrow> config_error + Config" where
  "loadConfig env =
     (let beHTTPAddr = getEnv env ''DORIS_BE_HTTP'' [];
          cfg = \<lparr>BEHTTP = [],
                 DB = getEnv env ''DORIS_DATABASE'' ''video'',
                 User = getEnv env ''DORIS_USER'' ''devops'',
                 Passwd = getEnv env ''DORIS_PASSWORD'' []\<rparr>
      in if beHTTPAddr = [] then Inl BE_HTTP_required
         else
           let beHTTPAddr =
                 (if \<not> HasPrefix beHTTPAddr ''http://'' \<and> \<not> HasPrefix beHTTPAddr ''https://''
                  then ''http://'' @ beHTTPAddr else beHTTPAddr);
               cfg = cfg\<lparr>BEHTTP := beHTTPAddr\<rparr>
           in if \<not> HasPrefix (BEHTTP cfg) ''http://'' \<and> \<not> HasPrefix (BEHTTP cfg) ''https://''
              then Inl (BE_HTTP_malformed (BEHTTP cfg))
              else if Passwd cfg = [] then Inl PASSWORD_unset
              else Inr cfg)"

text \<open>\<^verbatim>\<open>loadConfig\<close> of the second revision.\<close>

definition loadConfig_gin :: "environ \<Rightarrow> config_error + Config" where
  "loadConfig_gin env =
     (let beHTTPAddr = getEnv env ''DORIS_BE_HTTP'' []
      in if beHTTPAddr = [] then Inl BE_HTTP_required
         else
           let beHTTPAddr =
                 (if \<not> HasPrefix beHTTPAddr ''http://'' \<and> \<not> HasPrefix beHTTPAddr ''https://''
                  then ''http://'' @ beHTTPAddr else beHTTPAddr);
               cfg = \<lparr>BEHTTP = beHTTPAddr,
                      DB = getEnv env ''DORIS_DATABASE'' ''video'',
                      User = getEnv env ''DORIS_USER'' ''devops'',
                      Passwd = getEnv env ''DORIS_PASSWORD'' []\<rparr>
           in if Passwd cfg = [] then Inl PASSWORD_unset
              else Inr cfg)"

text \<open>\<^verbatim>\<open>maskPassword\<close> (the same text in both revisions).\<close>

definition maskPassword :: "string \<Rightarrow> string" where
  "maskPassword pwd =
     (if length pwd \<le> 4 then ''****''
      else take 2 pwd @ ''****'' @ drop (length pwd - 2) pwd)"

text \<open>
  The start of \<^verbatim>\<open>main\<close>, up to the point where the listener is set up: the
  configuration is loaded; on an error the error is logged and the process exits with
  status 1, otherwise the configuration record is logged, with the attributes in the
  order of the call.
\<close>

datatype log_record =
    Log_config_error config_error
  | Log_doris_config "(string \<times> string) list"

datatype startup = Exit nat | Started Config

definition doris_config_attrs :: "Config \<Rightarrow> (string \<times> string) list" where
  "doris_config_attrs cfg =
     [(''be_http'', BEHTTP cfg),
      (''database'', DB cfg),
      (''user'', User cfg),
      (''password'', maskPassword (Passwd cfg)),
      (''table'', videoTable)]"

definition main :: "environ \<Rightarrow> log_record list \<times> startup" where
  "main env =
     (case loadConfig env of
        Inl err \<Rightarrow> ([Log_config_error err], Exit 1)
      | Inr cfg \<Rightarrow> ([Log_doris_config (doris_config_attrs cfg)], Started cfg))"

definition main_gin :: "environ \<Rightarrow> log_record list \<times> startup" where
  "main_gin env =
     (case loadConfig_gin env of
        Inl err \<Rightarrow> ([Log_config_error err], Exit 1)
      | Inr cfg \<Rightarrow> ([Log_doris_config (doris_config_attrs cfg)], Started cfg))"

subsection \<open>HTTP messages\<close>

text \<open>
  \<^verbatim>\<open>http.Header\<close>, one value per name: \<^verbatim>\<open>Get\<close> answers the empty string for a
  name that is not set, \<^verbatim>\<open>Set\<close> replaces the value. Names are kept as the source writes
  them.
\<close>

type_synonym Header = "string \<rightharpoonup> string"

definition Header_Get :: "Header \<Rightarrow> string \<Rightarrow> string" where
  "Header_Get h k = (case h k of None \<Rightarrow> [] | Some v \<Rightarrow> v)"

definition Header_Set :: "Header \<Rightarrow> string \<Rightarrow> string \<Rightarrow> Header" where
  "Header_Set h k v = h(k \<mapsto> v)"

text \<open>The inbound request, as far as the handlers read it.\<close>

record Request =
  Method :: string
  Path :: string
  ReqHeader :: Header
  ReqBody :: string

text \<open>The outbound request to the load engine.\<close>

record LoadRequest =
  out_Method :: string
  out_URL :: string
  out_ContentLength :: int
  out_Header :: Header
  out_Body :: string

text \<open>
  What the load engine answers: the status code, and the body as \<^verbatim>\<open>io.ReadAll\<close>
  delivers it (\<open>None\<close> when reading fails).
\<close>

datatype Response = Response (StatusCode: nat) (ReadAll: "string option")

text \<open>
  One round trip of the transport: no response (connection refused, time-out), a
  redirect (with the request \<^verbatim>\<open>net/http\<close> would issue next), or a final response.
\<close>

datatype RoundTrip = Refused | Redirect LoadRequest | Answer Response

record VideoRequest =
  Project :: string
  Event :: string
  UserAgent :: string

text \<open>
  \<^verbatim>\<open>VideoData\<close>: the fields carry their JSON names. The second revision's struct has
  one more field, \<^verbatim>\<open>event_time\<close>.
\<close>

record VideoData =
  project :: string
  event :: string
  user_agent :: string

record VideoData_gin = VideoData +
  event_time :: string

text \<open>The names of a list, separated by commas.\<close>

fun comma_separated :: "string list \<Rightarrow> string" where
  "comma_separated [] = []"
| "comma_separated [x] = x"
| "comma_separated (x # y # ys) = x @ '','' @ comma_separated (y # ys)"

definition VideoData_columns :: "string list" where
  "VideoData_columns = [''project'', ''event'', ''user_agent'']"

definition VideoData_gin_columns :: "string list" where
  "VideoData_gin_columns = [''project'', ''event'', ''user_agent'', ''event_time'']"

record StreamLoadResponse =
  TxnID :: int
  Label :: string
  Status :: string
  Message :: string
  NumberTotalRows :: int
  NumberLoadedRows :: int
  NumberFilteredRows :: int
  NumberUnselectedRows :: int
  LoadBytes :: int
  LoadTimeMs :: int
  BeginTxnTimeMs :: int
  StreamLoadPutTimeMs :: int
  ReadDataTimeMs :: int
  WriteDataTimeMs :: int
  CommitAndPublishTimeMs :: int
  ErrorURL :: string

subsection \<open>Libraries and the outside world\<close>

text \<open>
  The library functions the service calls are parameters of the model: Base64 and JSON
  coding, URL parsing in \<^verbatim>\<open>http.NewRequest\<close>, the UUID generator (\<open>uuid_New lib n\<close> is
  what the \<open>n\<close>-th call of \<^verbatim>\<open>uuid.New().String()\<close> returns), time formatting, and the
  transport. A decoder answers \<open>None\<close> where the Go function returns an error.
\<close>

type_synonym Time = nat

record Lib =
  base64_EncodeToString :: "string \<Rightarrow> string"
  json_Valid :: "string \<Rightarrow> bool"
  json_Decode :: "string \<Rightarrow> VideoRequest option"
  json_Marshal :: "VideoData \<Rightarrow> string option"
  json_Marshal_gin :: "VideoData_gin \<Rightarrow> string option"
  json_Unmarshal :: "string \<Rightarrow> StreamLoadResponse option"
  http_NewRequest_ok :: "string \<Rightarrow> bool"
  uuid_New :: "nat \<Rightarrow> string"
  time_Format :: "Time \<Rightarrow> string \<Rightarrow> string"
  transport :: "LoadRequest \<Rightarrow> RoundTrip"

text \<open>
  The state a request runs in: how many UUIDs have been drawn, what \<^verbatim>\<open>time.Now()\<close>
  reads, and two records of what has happened: the payloads handed to the load client,
  and the requests put on the wire, both oldest first.
\<close>

record World =
  draws :: nat
  now :: Time
  submitted :: "string list"
  wire :: "LoadRequest list"

subsection \<open>The outbound client\<close>

definition maxRedirects :: nat where
  "maxRedirects = 10"

datatype do_error = Transport_failure | Too_many_redirects

text \<open>
  \<^verbatim>\<open>CheckRedirect\<close> of \<^verbatim>\<open>dorisClient\<close> and of \<^verbatim>\<open>NewDorisClient\<close> (the first revision writes
  the bound as the literal 10).
\<close>

definition CheckRedirect :: "LoadRequest \<Rightarrow> LoadRequest list \<Rightarrow> do_error option" where
  "CheckRedirect req via =
     (if length via \<ge> maxRedirects then Some Too_many_redirects else None)"

text \<open>
  \<^verbatim>\<open>Client.Do\<close> with this policy: the request is sent; on a redirect \<^verbatim>\<open>CheckRedirect\<close>
  is asked with the upcoming request and the requests made so far, oldest first; its
  error ends the call, otherwise the upcoming request is sent in turn. The second
  component is the list of requests made.
\<close>

function client_Do ::
  "(LoadRequest \<Rightarrow> RoundTrip) \<Rightarrow> LoadRequest list \<Rightarrow> LoadRequest
     \<Rightarrow> (do_error + Response) \<times> LoadRequest list" where
  "client_Do rt reqs req =
     (let reqs' = reqs @ [req] in
      case rt req of
        Refused \<Rightarrow> (Inl Transport_failure, reqs')
      | Answer resp \<Rightarrow> (Inr resp, reqs')
      | Redirect upcoming \<Rightarrow>
          (case CheckRedirect upcoming reqs' of
             Some e \<Rightarrow> (Inl e, reqs')
           | None \<Rightarrow> client_Do rt reqs' upcoming))"
  by pat_completeness auto
termination
  by (relation "measure (\<lambda>(rt, reqs, req). maxRedirects - length reqs)")
     (auto simp: CheckRedirect_def split: if_splits)

declare client_Do.simps [simp del]

text \<open>
  \<open>hop rt req k\<close>: the request reached after \<open>k\<close> redirects in a row, starting from
  \<open>req\<close>; \<open>None\<close> when one of the first \<open>k\<close> round trips is not a redirect.
\<close>

fun hop :: "(LoadRequest \<Rightarrow> RoundTrip) \<Rightarrow> LoadRequest \<Rightarrow> nat \<Rightarrow> LoadRequest option" where
  "hop rt req 0 = Some req"
| "hop rt req (Suc k) = (case rt req of Redirect upcoming \<Rightarrow> hop rt upcoming k | _ \<Rightarrow> None)"

text \<open>\<^verbatim>\<open>dorisClient.Do(req)\<close>, and \<^verbatim>\<open>dc.client.Do(req)\<close> of the second revision.\<close>

definition dorisClient_Do :: "Lib \<Rightarrow> LoadRequest \<Rightarrow> (do_error + Response) \<times> LoadRequest list" where
  "dorisClient_Do lib req = client_Do (transport lib) [] req"

datatype load_error =
    Create_request_failed
  | Connection_failed do_error
  | Read_body_failed
  | Doris_error nat string
  | Unparseable string
  | Load_failed string string string

text \<open>
  The request \<^verbatim>\<open>writeToDoris\<close> (first revision) builds once \<^verbatim>\<open>http.NewRequest\<close> has
  accepted the URL: the content length, then the headers in the order of the source.
\<close>

definition writeToDoris_request :: "Lib \<Rightarrow> Config \<Rightarrow> string \<Rightarrow> string \<Rightarrow> LoadRequest" where
  "writeToDoris_request lib config data label =
     (let url = BEHTTP config @ ''/api/'' @ DB config @ ''/'' @ videoTable @ ''/_stream_load'';
          auth = base64_EncodeToString lib (User config @ '':'' @ Passwd config);
          h = Header_Set Map.empty ''Authorization'' (''Basic '' @ auth);
          h = Header_Set h ''Content-Type'' ''application/json'';
          h = Header_Set h ''Expect'' ''100-continue'';
          h = Header_Set h ''label'' label;
          h = Header_Set h ''format'' ''json'';
          h = Header_Set h ''read_json_by_line'' ''true'';
          h = Header_Set h ''columns'' ''project,event,user_agent''
      in \<lparr>out_Method = ''PUT'', out_URL = url, out_ContentLength = int (length data),
          out_Header = h, out_Body = data\<rparr>)"

text \<open>
  \<^verbatim>\<open>writeToDoris\<close> (first revision), with the package-level \<^verbatim>\<open>config\<close> as a parameter;
  \<open>None\<close> is the \<^verbatim>\<open>nil\<close> error.
\<close>

definition writeToDoris ::
  "Lib \<Rightarrow> Config \<Rightarrow> string \<Rightarrow> World \<Rightarrow> load_error option \<times> World" where
  "writeToDoris lib config data w0 =
     (let w = w0\<lparr>submitted := submitted w0 @ [data]\<rparr>;
          url = BEHTTP config @ ''/api/'' @ DB config @ ''/'' @ videoTable @ ''/_stream_load''
      in if \<not> http_NewRequest_ok lib url then (Some Create_request_failed, w)
         else
           let label = uuid_New lib (draws w);
               w = w\<lparr>draws := Suc (draws w)\<rparr>;
               req = writeToDoris_request lib config data label;
               result = dorisClient_Do lib req;
               w = w\<lparr>wire := wire w @ snd result\<rparr>
           in case fst result of
                Inl e \<Rightarrow> (Some (Connection_failed e), w)
              | Inr resp \<Rightarrow>
                  (case ReadAll resp of
                     None \<Rightarrow> (Some Read_body_failed, w)
                   | Some body \<Rightarrow>
                       if StatusCode resp \<noteq> 200
                       then (Some (Doris_error (StatusCode resp) body), w)
                       else
                         (case json_Unmarshal lib body of
                            None \<Rightarrow> (Some (Unparseable body), w)
                          | Some loadResp \<Rightarrow>
                              if Status loadResp \<noteq> ''Success''
                              then (Some (Load_failed (Status loadResp) (Message loadResp)
                                            (ErrorURL loadResp)), w)
                              else (None, w))))"

subsection \<open>The first revision's handlers\<close>

text \<open>
  What a handler leaves in its \<^verbatim>\<open>ResponseWriter\<close>: the status, the headers and the body.
  A message is a literal, or a literal followed by the text of an error.
\<close>

datatype bind_error = Bind_decode | Bind_required string

datatype message =
    Lit string
  | With_load_error string load_error
  | With_bind_error string bind_error

datatype content = No_body | Plain message | Json "(string \<times> message) list"

record Reply =
  Code :: nat
  RespHeader :: Header
  Content :: content

text \<open>
  A handler gets the request, the response headers set so far and the state, and
  answers the reply and the new state.
\<close>

type_synonym Handler = "Request \<Rightarrow> Header \<Rightarrow> World \<Rightarrow> Reply \<times> World"

text \<open>\<^verbatim>\<open>http.Error\<close>: a plain-text reply with the given status (the message is followed
  by a line feed).\<close>

definition http_Error :: "Header \<Rightarrow> message \<Rightarrow> nat \<Rightarrow> Reply" where
  "http_Error h msg code =
     \<lparr>Code = code,
      RespHeader = Header_Set (Header_Set h ''Content-Type'' ''text/plain; charset=utf-8'')
                     ''X-Content-Type-Options'' ''nosniff'',
      Content = Plain msg\<rparr>"

definition toVideoData :: "VideoRequest \<Rightarrow> VideoData" where
  "toVideoData req =
     \<lparr>project = Project req, event = Event req, user_agent = UserAgent req\<rparr>"

definition setCORSHeaders :: "environ \<Rightarrow> Header \<Rightarrow> Request \<Rightarrow> Header" where
  "setCORSHeaders env h r =
     (let origin = Header_Get (ReqHeader r) ''Origin'';
          allowCredentials = (getEnv env ''CORS_ALLOW_CREDENTIALS'' ''false'' = ''true'');
          allowedOrigin = getEnv env ''CORS_ALLOWED_ORIGIN'' ''*'';
          h = (if allowCredentials then
                 (if allowedOrigin = ''*'' then
                    (if origin \<noteq> [] then Header_Set h ''Access-Control-Allow-Origin'' origin
                     else h)
                  else if origin = allowedOrigin
                    then Header_Set h ''Access-Control-Allow-Origin'' allowedOrigin
                  else h)
               else
                 (if allowedOrigin = ''*'' \<or> origin = allowedOrigin
                  then Header_Set h ''Access-Control-Allow-Origin'' allowedOrigin
                  else h));
          allowedMethods = getEnv env ''CORS_ALLOWED_METHODS'' ''GET, POST, OPTIONS'';
          h = Header_Set h ''Access-Control-Allow-Methods'' allowedMethods;
          allowedHeaders = getEnv env ''CORS_ALLOWED_HEADERS'' ''Content-Type, Authorization'';
          h = Header_Set h ''Access-Control-Allow-Headers'' allowedHeaders;
          h = (if allowCredentials then Header_Set h ''Access-Control-Allow-Credentials'' ''true''
               else h);
          maxAge = getEnv env ''CORS_MAX_AGE'' ''3600''
      in Header_Set h ''Access-Control-Max-Age'' maxAge)"

definition corsMiddleware :: "environ \<Rightarrow> Handler \<Rightarrow> Handler" where
  "corsMiddleware env next r h w =
     (let h = setCORSHeaders env h r
      in if Method r = ''OPTIONS''
         then (\<lparr>Code = 204, RespHeader = h, Content = No_body\<rparr>, w)
         else next r h w)"

definition validateRequest :: "Lib \<Rightarrow> environ \<Rightarrow> Handler \<Rightarrow> Handler" where
  "validateRequest lib env next r h w =
     (if Method r = ''OPTIONS'' then next r h w
      else if Method r \<noteq> ''POST''
        then (http_Error (setCORSHeaders env h r) (Lit ''Method not allowed'') 405, w)
      else if Header_Get (ReqHeader r) ''Content-Type'' \<noteq> ''application/json''
        then (http_Error (setCORSHeaders env h r) (Lit ''Invalid content type'') 415, w)
      else
        let body = ReqBody r
        in if \<not> json_Valid lib body
           then (http_Error (setCORSHeaders env h r) (Lit ''Invalid JSON format'') 400, w)
           else next (r\<lparr>ReqBody := body\<rparr>) h w)"

text \<open>\<^verbatim>\<open>videoHandler\<close> of the first revision, with the package-level \<^verbatim>\<open>config\<close> as a
  parameter.\<close>

definition videoHandler :: "Lib \<Rightarrow> environ \<Rightarrow> Config \<Rightarrow> Handler" where
  "videoHandler lib env config r h w =
     (case json_Decode lib (ReqBody r) of
        None \<Rightarrow> (http_Error (setCORSHeaders env h r) (Lit ''Invalid request body'') 400, w)
      | Some req \<Rightarrow>
          if Project req = [] \<or> Event req = []
          then (http_Error (setCORSHeaders env h r)
                  (Lit ''Missing required fields: project and event'') 400, w)
          else
            let data = toVideoData req
            in case json_Marshal lib data of
                 None \<Rightarrow>
                   (http_Error (setCORSHeaders env h r) (Lit ''Failed to marshal data'') 500, w)
               | Some jsonData \<Rightarrow>
                   let jsonData = jsonData @ [CHR 0x0A];
                       written = writeToDoris lib config jsonData w
                   in case fst written of
                        Some err \<Rightarrow>
                          (http_Error (setCORSHeaders env h r)
                             (With_load_error ''Doris connection failed: '' err) 502,
                           snd written)
                      | None \<Rightarrow>
                          (\<lparr>Code = 202,
                            RespHeader = Header_Set h ''Content-Type'' ''text/plain; charset=utf-8'',
                            Content = Plain (Lit ''Data processed successfully.'')\<rparr>,
                           snd written))"

text \<open>The handler \<^verbatim>\<open>main\<close> registers for \<^verbatim>\<open>/video\<close>.\<close>

definition video_route :: "Lib \<Rightarrow> environ \<Rightarrow> Config \<Rightarrow> Handler" where
  "video_route lib env config =
     corsMiddleware env (validateRequest lib env (videoHandler lib env config))"

subsection \<open>The second revision's client and handler\<close>

record DorisClient =
  dc_config :: Config
  streamURL :: string
  authHeader :: string

text \<open>\<^verbatim>\<open>DorisClient.init\<close>, which \<^verbatim>\<open>NewDorisClient\<close> runs once.\<close>

definition DorisClient_init :: "Lib \<Rightarrow> DorisClient \<Rightarrow> DorisClient" where
  "DorisClient_init lib dc =
     (let dc = dc\<lparr>streamURL := BEHTTP (dc_config dc) @ ''/api/'' @ DB (dc_config dc) @ ''/''
                                  @ videoTable @ ''/_stream_load''\<rparr>;
          auth = base64_EncodeToString lib
                   (User (dc_config dc) @ '':'' @ Passwd (dc_config dc))
      in dc\<lparr>authHeader := ''Basic '' @ auth\<rparr>)"

definition NewDorisClient :: "Lib \<Rightarrow> Config \<Rightarrow> DorisClient" where
  "NewDorisClient lib cfg =
     DorisClient_init lib \<lparr>dc_config = cfg, streamURL = [], authHeader = []\<rparr>"

text \<open>
  The request \<^verbatim>\<open>DorisClient.WriteToDoris\<close> builds once \<^verbatim>\<open>http.NewRequestWithContext\<close>
  has accepted the URL.
\<close>

definition WriteToDoris_request :: "DorisClient \<Rightarrow> string \<Rightarrow> string \<Rightarrow> LoadRequest" where
  "WriteToDoris_request dc data label =
     (let h = Header_Set Map.empty ''Authorization'' (authHeader dc);
          h = Header_Set h ''Content-Type'' ''application/json'';
          h = Header_Set h ''Expect'' ''100-continue'';
          h = Header_Set h ''label'' label;
          h = Header_Set h ''format'' ''json'';
          h = Header_Set h ''read_json_by_line'' ''true'';
          h = Header_Set h ''columns'' ''project,event,user_agent,event_time''
      in \<lparr>out_Method = ''PUT'', out_URL = streamURL dc, out_ContentLength = int (length data),
          out_Header = h, out_Body = data\<rparr>)"

text \<open>\<^verbatim>\<open>DorisClient.WriteToDoris\<close>.\<close>

definition WriteToDoris ::
  "Lib \<Rightarrow> DorisClient \<Rightarrow> string \<Rightarrow> World \<Rightarrow> load_error option \<times> World" where
  "WriteToDoris lib dc data w0 =
     (let w = w0\<lparr>submitted := submitted w0 @ [data]\<rparr>
      in if \<not> http_NewRequest_ok lib (streamURL dc) then (Some Create_request_failed, w)
         else
           let label = uuid_New lib (draws w);
               w = w\<lparr>draws := Suc (draws w)\<rparr>;
               req = WriteToDoris_request dc data label;
               result = dorisClient_Do lib req;
               w = w\<lparr>wire := wire w @ snd result\<rparr>
           in case fst result of
                Inl e \<Rightarrow> (Some (Connection_failed e), w)
              | Inr resp \<Rightarrow>
                  (case ReadAll resp of
                     None \<Rightarrow> (Some Read_body_failed, w)
                   | Some body \<Rightarrow>
                       if StatusCode resp \<noteq> 200
                       then (Some (Doris_error (StatusCode resp) body), w)
                       else
                         (case json_Unmarshal lib body of
                            None \<Rightarrow> (Some (Unparseable body), w)
                          | Some loadResp \<Rightarrow>
                              if Status loadResp \<noteq> ''Success''
                              then (Some (Load_failed (Status loadResp) (Message loadResp)
                                            (ErrorURL loadResp)), w)
                              else (None, w))))"

text \<open>
  \<^verbatim>\<open>c.ShouldBindJSON(&req)\<close> for \<^verbatim>\<open>VideoRequest\<close>: gin decodes the body with
  \<^verbatim>\<open>encoding/json\<close> and then checks the struct's \<^verbatim>\<open>binding:"required"\<close> tags, which an
  empty string fails. The request's headers are not read.
\<close>

definition ShouldBindJSON :: "Lib \<Rightarrow> Request \<Rightarrow> bind_error + VideoRequest" where
  "ShouldBindJSON lib r =
     (case json_Decode lib (ReqBody r) of
        None \<Rightarrow> Inl Bind_decode
      | Some req \<Rightarrow>
          if Project req = [] then Inl (Bind_required ''Project'')
          else if Event req = [] then Inl (Bind_required ''Event'')
          else Inr req)"

text \<open>\<^verbatim>\<open>c.JSON\<close>.\<close>

definition c_JSON :: "Header \<Rightarrow> nat \<Rightarrow> (string \<times> message) list \<Rightarrow> Reply" where
  "c_JSON h code obj =
     \<lparr>Code = code,
      RespHeader = Header_Set h ''Content-Type'' ''application/json; charset=utf-8'',
      Content = Json obj\<rparr>"

record App =
  app_config :: Config
  dorisClient :: DorisClient

definition App_videoHandler :: "Lib \<Rightarrow> App \<Rightarrow> Handler" where
  "App_videoHandler lib app r h w =
     (case ShouldBindJSON lib r of
        Inl err \<Rightarrow>
          (c_JSON h 400 [(''error'', With_bind_error ''Invalid request body: '' err)], w)
      | Inr req \<Rightarrow>
          let eventTime = time_Format lib (now w) ''2006-01-02 15:04:05''
          in case json_Marshal_gin lib
                    \<lparr>project = Project req, event = Event req, user_agent = UserAgent req,
                     event_time = eventTime\<rparr> of
               None \<Rightarrow> (c_JSON h 500 [(''error'', Lit ''Failed to marshal data'')], w)
             | Some jsonData \<Rightarrow>
                 let jsonData = jsonData @ [CHR 0x0A];
                     written = WriteToDoris lib (dorisClient app) jsonData w
                 in case fst written of
                      Some err \<Rightarrow>
                        (c_JSON h 502
                           [(''error'', With_load_error ''Doris connection failed: '' err)],
                         snd written)
                    | None \<Rightarrow>
                        (c_JSON h 200 [(''message'', Lit ''Data processed successfully.'')],
                         snd written))"

text \<open>
  The routes \<^verbatim>\<open>setupRouter\<close> registers: the handler of this repository that a method and
  path select, \<open>None\<close> where the router has no route (gin answers those itself). The
  middleware \<^verbatim>\<open>setupRouter\<close> installs is library code and is not part of the model.
\<close>

definition health :: Handler where
  "health r h w =
     (c_JSON h 200 [(''status'', Lit ''ok''), (''service'', Lit ''doris-webhook'')], w)"

definition setupRouter :: "Lib \<Rightarrow> App \<Rightarrow> string \<Rightarrow> string \<Rightarrow> Handler option" where
  "setupRouter lib app method path =
     (if method = ''GET'' \<and> path = ''/health'' then Some health
      else if method = ''POST'' \<and> path = ''/video'' then Some (App_videoHandler lib app)
      else None)"

section \<open>Sample inputs\<close>

text \<open>Concrete inputs at which the theorems below are evaluated.\<close>

definition sample_env :: environ where
  "sample_env = [''DORIS_BE_HTTP'' \<mapsto> ''be:8040'', ''DORIS_PASSWORD'' \<mapsto> ''s3cr3t-pw'']"

definition sample_config :: Config where
  "sample_config =
     \<lparr>BEHTTP = ''http://be:8040'', DB = ''video'', User = ''devops'', Passwd = ''s3cr3t-pw''\<rparr>"

definition sample_body :: string where
  \<open>sample_body = ''{"project":"app1","event":"play","userAgent":"UA"}''\<close>

definition sample_request :: VideoRequest where
  "sample_request = \<lparr>Project = ''app1'', Event = ''play'', UserAgent = ''UA''\<rparr>"

definition no_project_body :: string where
  \<open>no_project_body = ''{"project":"","event":"play"}''\<close>

definition success_ack :: string where
  \<open>success_ack = ''{"Status":"Success"}''\<close>

definition fail_ack :: string where
  \<open>fail_ack = ''{"Status":"Fail","Message":"too many filtered rows"}''\<close>

definition blank_ack :: StreamLoadResponse where
  "blank_ack =
     \<lparr>TxnID = 0, Label = [], Status = [], Message = [], NumberTotalRows = 0,
      NumberLoadedRows = 0, NumberFilteredRows = 0, NumberUnselectedRows = 0, LoadBytes = 0,
      LoadTimeMs = 0, BeginTxnTimeMs = 0, StreamLoadPutTimeMs = 0, ReadDataTimeMs = 0,
      WriteDataTimeMs = 0, CommitAndPublishTimeMs = 0, ErrorURL = []\<rparr>"

text \<open>
  A load engine for the sample runs. It answers by database: \<open>video\<close> loads, \<open>strict\<close>
  rejects the rows, \<open>garbled\<close> answers 200 with a body that is not JSON, \<open>gone\<close> answers
  404, \<open>down\<close> refuses the connection, \<open>moved\<close> redirects once to \<open>video\<close>, and
  \<open>loop\<close> redirects to itself for ever.
\<close>

definition sample_transport :: "LoadRequest \<Rightarrow> RoundTrip" where
  "sample_transport q =
     (if out_URL q = ''http://be:8040/api/video/video_metrics/_stream_load''
        then Answer (Response 200 (Some success_ack))
      else if out_URL q = ''http://be:8040/api/strict/video_metrics/_stream_load''
        then Answer (Response 200 (Some fail_ack))
      else if out_URL q = ''http://be:8040/api/garbled/video_metrics/_stream_load''
        then Answer (Response 200 (Some ''<html>''))
      else if out_URL q = ''http://be:8040/api/down/video_metrics/_stream_load''
        then Refused
      else if out_URL q = ''http://be:8040/api/moved/video_metrics/_stream_load''
        then Redirect (q\<lparr>out_URL := ''http://be:8040/api/video/video_metrics/_stream_load''\<rparr>)
      else if out_URL q = ''http://be:8040/api/loop/video_metrics/_stream_load''
        then Redirect q
      else Answer (Response 404 (Some ''not found'')))"

text \<open>
  Library functions for the sample runs, defined on the sample inputs only: Base64
  knows the sample credentials, the JSON decoders know the bodies above, the JSON
  encoders write strings without escaping, and the clock reads 10:15:00 on 3 November
  2026.
\<close>

definition sample_lib :: Lib where
  \<open>sample_lib =
     \<lparr>base64_EncodeToString =
        (\<lambda>s. if s = ''devops:s3cr3t-pw'' then ''ZGV2b3BzOnMzY3IzdC1wdw=='' else []),
      json_Valid = (\<lambda>b. b = sample_body \<or> b = no_project_body),
      json_Decode =
        (\<lambda>b. if b = sample_body then Some sample_request
             else if b = no_project_body
               then Some \<lparr>Project = [], Event = ''play'', UserAgent = []\<rparr>
             else None),
      json_Marshal =
        (\<lambda>d. Some (''{"project":"'' @ project d @ ''","event":"'' @ event d
                    @ ''","user_agent":"'' @ user_agent d @ ''"}'')),
      json_Marshal_gin =
        (\<lambda>d. Some (''{"project":"'' @ project d @ ''","event":"'' @ event d
                    @ ''","user_agent":"'' @ user_agent d
                    @ ''","event_time":"'' @ event_time d @ ''"}'')),
      json_Unmarshal =
        (\<lambda>b. if b = success_ack then Some (blank_ack\<lparr>Status := ''Success''\<rparr>)
             else if b = fail_ack
               then Some (blank_ack\<lparr>Status := ''Fail'', Message := ''too many filtered rows''\<rparr>)
             else None),
      http_NewRequest_ok = (\<lambda>url. CHR 0x20 \<notin> set url),
      uuid_New = (\<lambda>n. ''label-'' @ replicate n (CHR ''i'')),
      time_Format = (\<lambda>t layout. ''2026-11-03 10:15:00''),
      transport = sample_transport\<rparr>\<close>

definition sample_world :: World where
  "sample_world = \<lparr>draws = 0, now = 1793700900, submitted = [], wire = []\<rparr>"

definition sample_post :: Request where
  "sample_post =
     \<lparr>Method = ''POST'', Path = ''/video'',
      ReqHeader = [''Content-Type'' \<mapsto> ''application/json''],
      ReqBody = sample_body\<rparr>"

definition sample_app :: App where
  "sample_app =
     \<lparr>app_config = sample_config, dorisClient = NewDorisClient sample_lib sample_config\<rparr>"

definition sample_text_post :: Request where
  "sample_text_post =
     \<lparr>Method = ''POST'', Path = ''/video'',
      ReqHeader = [''Content-Type'' \<mapsto> ''text/plain''],
      ReqBody = sample_body\<rparr>"

text \<open>
  A load engine that redirects \<open>n\<close> times and then loads: it redirects every URL
  shorter than \<open>51 + n\<close> bytes to the same URL with one more slash (the sample URL has 51
  bytes).
\<close>

definition redirecting_transport :: "nat \<Rightarrow> LoadRequest \<Rightarrow> RoundTrip" where
  "redirecting_transport n q =
     (if length (out_URL q) < 51 + n then Redirect (q\<lparr>out_URL := out_URL q @ ''/''\<rparr>)
      else Answer (Response 200 (Some success_ack)))"


section \<open>Properties\<close>

subsection \<open>Configuration\<close>

lemma getEnv_empty_unset:
  "getEnv (env(k \<mapsto> [])) k' d = getEnv (env(k := None)) k' d"
  by (simp add: getEnv_def os_Getenv_def)

lemma loadConfig_isl_BE:
  "getEnv env ''DORIS_BE_HTTP'' [] = [] \<Longrightarrow> loadConfig env = Inl BE_HTTP_required"
  by (simp add: loadConfig_def Let_def)

lemma loadConfig_isl_PW:
  "getEnv env ''DORIS_PASSWORD'' [] = [] \<Longrightarrow> isl (loadConfig env)"
  by (simp add: loadConfig_def Let_def)

lemma loadConfig_gin_isl_BE:
  "getEnv env ''DORIS_BE_HTTP'' [] = [] \<Longrightarrow> loadConfig_gin env = Inl BE_HTTP_required"
  by (simp add: loadConfig_gin_def Let_def)

lemma loadConfig_gin_isl_PW:
  "getEnv env ''DORIS_PASSWORD'' [] = [] \<Longrightarrow> isl (loadConfig_gin env)"
  by (simp add: loadConfig_gin_def Let_def)

lemma getEnv_set_empty: "getEnv (env(k \<mapsto> [])) k d = d"
  by (simp add: getEnv_def os_Getenv_def)

lemma main_exit: "isl (loadConfig env) \<Longrightarrow> snd (main env) = Exit 1"
  by (auto simp: main_def split: sum.splits)

lemma main_gin_exit: "isl (loadConfig_gin env) \<Longrightarrow> snd (main_gin env) = Exit 1"
  by (auto simp: main_gin_def split: sum.splits)

text \<open>
  C10. A variable set to the empty string is read as an unset one: \<open>getEnv\<close> answers
  the default for it, so loading the configuration and the start of \<open>main\<close> give the
  same result for both. With \<^verbatim>\<open>DORIS_BE_HTTP\<close> or \<^verbatim>\<open>DORIS_PASSWORD\<close> set to the empty
  string, loading fails and the process exits with status 1, in both revisions.
\<close>

theorem empty_variable_is_unset:
  "getEnv (env(k \<mapsto> [])) k d = d
   \<and> getEnv (env(k := None)) k d = d
   \<and> getEnv (env(k \<mapsto> [])) k' d = getEnv (env(k := None)) k' d
   \<and> loadConfig (env(k \<mapsto> [])) = loadConfig (env(k := None))
   \<and> loadConfig_gin (env(k \<mapsto> [])) = loadConfig_gin (env(k := None))
   \<and> main (env(k \<mapsto> [])) = main (env(k := None))
   \<and> main_gin (env(k \<mapsto> [])) = main_gin (env(k := None))
   \<and> loadConfig (env(''DORIS_BE_HTTP'' \<mapsto> [])) = Inl BE_HTTP_required
   \<and> loadConfig_gin (env(''DORIS_BE_HTTP'' \<mapsto> [])) = Inl BE_HTTP_required
   \<and> isl (loadConfig (env(''DORIS_PASSWORD'' \<mapsto> [])))
   \<and> isl (loadConfig_gin (env(''DORIS_PASSWORD'' \<mapsto> [])))
   \<and> snd (main (env(''DORIS_BE_HTTP'' \<mapsto> []))) = Exit 1
   \<and> snd (main (env(''DORIS_PASSWORD'' \<mapsto> []))) = Exit 1
   \<and> snd (main_gin (env(''DORIS_BE_HTTP'' \<mapsto> []))) = Exit 1
   \<and> snd (main_gin (env(''DORIS_PASSWORD'' \<mapsto> []))) = Exit 1"
proof -
  have g: "\<And>k' d. getEnv (env(k \<mapsto> [])) k' d = getEnv (env(k := None)) k' d"
    by (rule getEnv_empty_unset)
  have l1: "loadConfig (env(k \<mapsto> [])) = loadConfig (env(k := None))"
    unfolding loadConfig_def g ..
  have l2: "loadConfig_gin (env(k \<mapsto> [])) = loadConfig_gin (env(k := None))"
    unfolding loadConfig_gin_def g ..
  have m1: "main (env(k \<mapsto> [])) = main (env(k := None))"
    unfolding main_def l1 ..
  have m2: "main_gin (env(k \<mapsto> [])) = main_gin (env(k := None))"
    unfolding main_gin_def l2 ..
  have u: "getEnv (env(k := None)) k d = d"
    by (simp add: getEnv_def os_Getenv_def)
  have b1: "loadConfig (env(''DORIS_BE_HTTP'' \<mapsto> [])) = Inl BE_HTTP_required"
    by (rule loadConfig_isl_BE) (rule getEnv_set_empty)
  have b2: "loadConfig_gin (env(''DORIS_BE_HTTP'' \<mapsto> [])) = Inl BE_HTTP_required"
    by (rule loadConfig_gin_isl_BE) (rule getEnv_set_empty)
  have p1: "isl (loadConfig (env(''DORIS_PASSWORD'' \<mapsto> [])))"
    by (rule loadConfig_isl_PW) (rule getEnv_set_empty)
  have p2: "isl (loadConfig_gin (env(''DORIS_PASSWORD'' \<mapsto> [])))"
    by (rule loadConfig_gin_isl_PW) (rule getEnv_set_empty)
  show ?thesis
    using g l1 l2 m1 m2 u b1 b2 p1 p2 getEnv_set_empty [of env k d]
      main_exit [OF p1] main_gin_exit [OF p2]
      main_exit [of "env(''DORIS_BE_HTTP'' \<mapsto> [])"]
      main_gin_exit [of "env(''DORIS_BE_HTTP'' \<mapsto> [])"]
    by simp
qed

theorem empty_variable_is_unset_witness:
  "main (sample_env(''DORIS_PASSWORD'' \<mapsto> [])) = ([Log_config_error PASSWORD_unset], Exit 1)
   \<and> main (sample_env(''DORIS_PASSWORD'' := None)) = ([Log_config_error PASSWORD_unset], Exit 1)
   \<and> main_gin (sample_env(''DORIS_BE_HTTP'' \<mapsto> [])) = ([Log_config_error BE_HTTP_required], Exit 1)
   \<and> main_gin (sample_env(''DORIS_BE_HTTP'' := None)) = ([Log_config_error BE_HTTP_required], Exit 1)"
  using empty_variable_is_unset [of sample_env "''DORIS_PASSWORD''" "[]" "''DORIS_PASSWORD''"]
    empty_variable_is_unset [of sample_env "''DORIS_BE_HTTP''" "[]" "''DORIS_BE_HTTP''"]
  by (simp add: sample_env_def main_def main_gin_def loadConfig_def loadConfig_gin_def
      getEnv_def os_Getenv_def HasPrefix_def Let_def)

subsection \<open>Password masking\<close>

lemma maskPassword_fixed_point:
  "(maskPassword p = p) = (p = ''****'' \<or> (length p = 8 \<and> take 4 (drop 2 p) = ''****''))"
proof (cases "length p \<le> 4")
  case True
  then show ?thesis by (auto simp: maskPassword_def)
next
  case False
  show ?thesis
  proof
    assume e: "maskPassword p = p"
    from False e have "p = take 2 p @ ''****'' @ drop (length p - 2) p"
      by (simp add: maskPassword_def)
    then have "length p = length (take 2 p @ ''****'' @ drop (length p - 2) p)" by simp
    with False have l: "length p = 8" by simp
    from False e have "take 2 p @ ''****'' @ drop (length p - 2) p = p"
      by (simp add: maskPassword_def)
    then have "take 4 (drop 2 (take 2 p @ ''****'' @ drop (length p - 2) p)) = take 4 (drop 2 p)"
      by simp
    with l have "take 4 (drop 2 p) = ''****''" by simp
    with l show "p = ''****'' \<or> (length p = 8 \<and> take 4 (drop 2 p) = ''****'')" by simp
  next
    assume "p = ''****'' \<or> (length p = 8 \<and> take 4 (drop 2 p) = ''****'')"
    with False have l: "length p = 8" and m: "take 4 (drop 2 p) = ''****''" by auto
    have d6: "drop 4 (drop 2 p) = drop 6 p" by simp
    have "take 2 p @ take 4 (drop 2 p) @ drop 4 (drop 2 p) = p"
      by (simp only: append_take_drop_id)
    then have "take 2 p @ take 4 (drop 2 p) @ drop 6 p = p"
      by (simp only: d6)
    with l m show "maskPassword p = p" by (simp add: maskPassword_def)
  qed
qed


text \<open>
  C9, as amended. The start-up record carries the password only as
  \<open>maskPassword\<close> of it. A password of at most four characters is masked to four
  stars; a longer one to its first two characters, four stars and its last two, so two
  passwords of one length that agree on their first two and last two characters have
  the same masked form. The masked form equals the password exactly when the password
  is four stars, or has eight characters with four stars in the middle.
\<close>

theorem maskPassword_reveals_ends_only:
  "(loadConfig env = Inr cfg \<longrightarrow> fst (main env) = [Log_doris_config (doris_config_attrs cfg)])
   \<and> (loadConfig_gin env = Inr cfg \<longrightarrow>
        fst (main_gin env) = [Log_doris_config (doris_config_attrs cfg)])
   \<and> map (\<lambda>kv. snd kv) (filter (\<lambda>kv. fst kv = ''password'') (doris_config_attrs cfg))
       = [maskPassword (Passwd cfg)]
   \<and> (length p \<le> 4 \<longrightarrow> maskPassword p = ''****'')
   \<and> (4 < length p \<longrightarrow> maskPassword p = take 2 p @ ''****'' @ drop (length p - 2) p)
   \<and> (length p = length q \<and> take 2 p = take 2 q
        \<and> drop (length p - 2) p = drop (length q - 2) q
        \<longrightarrow> maskPassword p = maskPassword q)
   \<and> ((maskPassword p = p) = (p = ''****'' \<or> (length p = 8 \<and> take 4 (drop 2 p) = ''****'')))"
proof -
  have a: "loadConfig env = Inr cfg \<longrightarrow>
      fst (main env) = [Log_doris_config (doris_config_attrs cfg)]"
    by (simp add: main_def)
  have b: "loadConfig_gin env = Inr cfg \<longrightarrow>
      fst (main_gin env) = [Log_doris_config (doris_config_attrs cfg)]"
    by (simp add: main_gin_def)
  have c: "map (\<lambda>kv. snd kv) (filter (\<lambda>kv. fst kv = ''password'') (doris_config_attrs cfg))
       = [maskPassword (Passwd cfg)]"
    by (simp add: doris_config_attrs_def)
  have d: "length p = length q \<and> take 2 p = take 2 q
        \<and> drop (length p - 2) p = drop (length q - 2) q
        \<longrightarrow> maskPassword p = maskPassword q"
    by (auto simp: maskPassword_def)
  show ?thesis
    using a b c d maskPassword_fixed_point [of p]
    by (simp add: maskPassword_def)
qed

theorem maskPassword_reveals_ends_only_witness:
  "main sample_env =
     ([Log_doris_config
         [(''be_http'', ''http://be:8040''), (''database'', ''video''), (''user'', ''devops''),
          (''password'', ''s3****pw''), (''table'', ''video_metrics'')]],
      Started sample_config)
   \<and> maskPassword ''s3cr3t-pw'' = ''s3****pw''
   \<and> maskPassword ''s3XXXX-pw'' = ''s3****pw''
   \<and> maskPassword ''abc'' = ''****''"
proof -
  have l: "loadConfig sample_env = Inr sample_config"
    by (simp add: sample_env_def sample_config_def loadConfig_def getEnv_def os_Getenv_def
        HasPrefix_def Let_def)
  have m: "maskPassword ''s3cr3t-pw'' = ''s3****pw''"
    using maskPassword_reveals_ends_only [of sample_env sample_config "''s3cr3t-pw''" "''s3XXXX-pw''"]
    by (simp add: maskPassword_def)
  show ?thesis
    using l m maskPassword_reveals_ends_only [of sample_env sample_config "''s3cr3t-pw''" "''s3XXXX-pw''"]
      maskPassword_reveals_ends_only [of sample_env sample_config "''abc''" "''abc''"]
    by (simp add: main_def doris_config_attrs_def sample_config_def videoTable_def
        maskPassword_def)
qed

theorem maskPassword_can_equal_password:
  "maskPassword ''****'' = ''****'' \<and> maskPassword ''ab****yz'' = ''ab****yz''"
  by (simp add: maskPassword_def)

subsection \<open>CORS headers\<close>

lemma setCORSHeaders_allow_origin:
  "setCORSHeaders env h r ''Access-Control-Allow-Origin'' =
     (let origin = Header_Get (ReqHeader r) ''Origin'';
          allowed = getEnv env ''CORS_ALLOWED_ORIGIN'' ''*''
      in if getEnv env ''CORS_ALLOW_CREDENTIALS'' ''false'' = ''true''
         then (if allowed = ''*''
               then (if origin = [] then h ''Access-Control-Allow-Origin'' else Some origin)
               else if origin = allowed then Some allowed
               else h ''Access-Control-Allow-Origin'')
         else (if allowed = ''*'' \<or> origin = allowed then Some allowed
               else h ''Access-Control-Allow-Origin''))"
  by (simp add: setCORSHeaders_def Header_Set_def Let_def)

lemma setCORSHeaders_twice:
  "setCORSHeaders env (setCORSHeaders env h r) r ''Access-Control-Allow-Origin'' =
     setCORSHeaders env h r ''Access-Control-Allow-Origin''"
  by (simp add: setCORSHeaders_allow_origin Let_def)

lemma setCORSHeaders_body [simp]:
  "setCORSHeaders env h (r\<lparr>ReqBody := b\<rparr>) = setCORSHeaders env h r"
  by (simp add: setCORSHeaders_def)

lemma http_Error_allow_origin [simp]:
  "RespHeader (http_Error h msg code) ''Access-Control-Allow-Origin'' =
     h ''Access-Control-Allow-Origin''"
  by (simp add: http_Error_def Header_Set_def)

lemma videoHandler_allow_origin:
  "RespHeader (fst (videoHandler lib env config r h w)) ''Access-Control-Allow-Origin''
     \<in> {h ''Access-Control-Allow-Origin'',
         setCORSHeaders env h r ''Access-Control-Allow-Origin''}"
  by (simp add: videoHandler_def Let_def Header_Set_def split: option.split)

lemma validateRequest_allow_origin:
  "RespHeader (fst (validateRequest lib env (videoHandler lib env config) r h w))
       ''Access-Control-Allow-Origin''
     \<in> {h ''Access-Control-Allow-Origin'',
         setCORSHeaders env h r ''Access-Control-Allow-Origin''}"
  using videoHandler_allow_origin [of lib env config r h w]
  by (simp add: validateRequest_def Let_def)

lemma video_route_allow_origin:
  "RespHeader (fst (video_route lib env config r Map.empty w)) ''Access-Control-Allow-Origin''
     = setCORSHeaders env Map.empty r ''Access-Control-Allow-Origin''"
  using validateRequest_allow_origin [of lib env config r "setCORSHeaders env Map.empty r" w]
  by (simp add: video_route_def corsMiddleware_def Let_def setCORSHeaders_twice)

text \<open>
  What \<open>setCORSHeaders\<close> answers when credentials are allowed. The
  \<^verbatim>\<open>Access-Control-Allow-Origin\<close> header of the reply is the one it sets: under a
  configured wildcard the request's \<^verbatim>\<open>Origin\<close> as it was sent (no header when the
  request has none), under a configured origin that origin when the request's
  \<^verbatim>\<open>Origin\<close> equals it (no header otherwise). So the header is the wildcard only when
  the wildcard is configured and the request's own \<^verbatim>\<open>Origin\<close> is the wildcard.
\<close>

lemma credentialed_allow_origin_echoes_request:
  "getEnv env ''CORS_ALLOW_CREDENTIALS'' ''false'' = ''true'' \<longrightarrow>
     (let origin = Header_Get (ReqHeader r) ''Origin'';
          allowed = getEnv env ''CORS_ALLOWED_ORIGIN'' ''*'';
          sent = RespHeader (fst (video_route lib env config r Map.empty w))
                   ''Access-Control-Allow-Origin''
      in sent = setCORSHeaders env Map.empty r ''Access-Control-Allow-Origin''
         \<and> (allowed = ''*'' \<longrightarrow> sent = (if origin = [] then None else Some origin))
         \<and> (allowed \<noteq> ''*'' \<longrightarrow> sent = (if origin = allowed then Some allowed else None))
         \<and> (origin \<noteq> ''*'' \<longrightarrow> sent \<noteq> Some ''*'')
         \<and> ((sent = Some ''*'') = (origin = ''*'' \<and> allowed = ''*''))
         \<and> setCORSHeaders env Map.empty r ''Access-Control-Allow-Credentials'' = Some ''true'')"
proof
  assume c: "getEnv env ''CORS_ALLOW_CREDENTIALS'' ''false'' = ''true''"
  have s: "RespHeader (fst (video_route lib env config r Map.empty w))
             ''Access-Control-Allow-Origin''
           = setCORSHeaders env Map.empty r ''Access-Control-Allow-Origin''"
    by (rule video_route_allow_origin)
  have k: "setCORSHeaders env Map.empty r ''Access-Control-Allow-Credentials'' = Some ''true''"
    using c by (simp add: setCORSHeaders_def Header_Set_def Let_def)
  show "let origin = Header_Get (ReqHeader r) ''Origin'';
          allowed = getEnv env ''CORS_ALLOWED_ORIGIN'' ''*'';
          sent = RespHeader (fst (video_route lib env config r Map.empty w))
                   ''Access-Control-Allow-Origin''
      in sent = setCORSHeaders env Map.empty r ''Access-Control-Allow-Origin''
         \<and> (allowed = ''*'' \<longrightarrow> sent = (if origin = [] then None else Some origin))
         \<and> (allowed \<noteq> ''*'' \<longrightarrow> sent = (if origin = allowed then Some allowed else None))
         \<and> (origin \<noteq> ''*'' \<longrightarrow> sent \<noteq> Some ''*'')
         \<and> ((sent = Some ''*'') = (origin = ''*'' \<and> allowed = ''*''))
         \<and> setCORSHeaders env Map.empty r ''Access-Control-Allow-Credentials'' = Some ''true''"
    unfolding Let_def s k
    using c by (auto simp: setCORSHeaders_allow_origin Let_def)
qed

lemma credentialed_allow_origin_echoes_request_example:
  "RespHeader
     (fst (video_route sample_lib [''CORS_ALLOW_CREDENTIALS'' \<mapsto> ''true''] sample_config
             \<lparr>Method = ''GET'', Path = ''/video'',
              ReqHeader = [''Origin'' \<mapsto> ''https://app.example''], ReqBody = []\<rparr>
             Map.empty sample_world))
     ''Access-Control-Allow-Origin'' = Some ''https://app.example''"
  using credentialed_allow_origin_echoes_request
    [of "[''CORS_ALLOW_CREDENTIALS'' \<mapsto> ''true'']"
        "\<lparr>Method = ''GET'', Path = ''/video'',
          ReqHeader = [''Origin'' \<mapsto> ''https://app.example''], ReqBody = []\<rparr>"
        sample_lib sample_config sample_world]
  by (simp add: getEnv_def os_Getenv_def Header_Get_def Header_Set_def Let_def
      setCORSHeaders_def)

text \<open>
  C8. With credentials allowed the reply must never carry the wildcard as
  \<^verbatim>\<open>Access-Control-Allow-Origin\<close>. \<open>setCORSHeaders\<close> echoes the request's \<^verbatim>\<open>Origin\<close>
  without looking at it, so a request sent with \<^verbatim>\<open>Origin: *\<close> is answered with the
  wildcard next to \<^verbatim>\<open>Access-Control-Allow-Credentials: true\<close>.
\<close>

theorem credentialed_wildcard_for_wildcard_origin:
  "getEnv [''CORS_ALLOW_CREDENTIALS'' \<mapsto> ''true''] ''CORS_ALLOW_CREDENTIALS'' ''false'' = ''true''
   \<and> setCORSHeaders [''CORS_ALLOW_CREDENTIALS'' \<mapsto> ''true''] Map.empty
        \<lparr>Method = ''GET'', Path = ''/video'', ReqHeader = [''Origin'' \<mapsto> ''*''], ReqBody = []\<rparr>
        ''Access-Control-Allow-Origin'' = Some ''*''
   \<and> setCORSHeaders [''CORS_ALLOW_CREDENTIALS'' \<mapsto> ''true''] Map.empty
        \<lparr>Method = ''GET'', Path = ''/video'', ReqHeader = [''Origin'' \<mapsto> ''*''], ReqBody = []\<rparr>
        ''Access-Control-Allow-Credentials'' = Some ''true''
   \<and> fst (video_route sample_lib [''CORS_ALLOW_CREDENTIALS'' \<mapsto> ''true''] sample_config
             \<lparr>Method = ''GET'', Path = ''/video'', ReqHeader = [''Origin'' \<mapsto> ''*''],
              ReqBody = []\<rparr>
             Map.empty sample_world)
       = \<lparr>Code = 405,
          RespHeader =
            [''Access-Control-Allow-Origin'' \<mapsto> ''*'',
             ''Access-Control-Allow-Methods'' \<mapsto> ''GET, POST, OPTIONS'',
             ''Access-Control-Allow-Headers'' \<mapsto> ''Content-Type, Authorization'',
             ''Access-Control-Allow-Credentials'' \<mapsto> ''true'',
             ''Access-Control-Max-Age'' \<mapsto> ''3600'',
             ''Content-Type'' \<mapsto> ''text/plain; charset=utf-8'',
             ''X-Content-Type-Options'' \<mapsto> ''nosniff''],
          Content = Plain (Lit ''Method not allowed'')\<rparr>"
  by (simp add: setCORSHeaders_def getEnv_def os_Getenv_def Header_Get_def Header_Set_def
      Let_def video_route_def corsMiddleware_def validateRequest_def http_Error_def)

subsection \<open>The redirect loop\<close>

lemma client_Do_Answer:
  "rt req = Answer resp \<Longrightarrow> client_Do rt reqs req = (Inr resp, reqs @ [req])"
  by (simp add: client_Do.simps)

lemma client_Do_Refused:
  "rt req = Refused \<Longrightarrow> client_Do rt reqs req = (Inl Transport_failure, reqs @ [req])"
  by (simp add: client_Do.simps)

lemma client_Do_Redirect:
  "rt req = Redirect upcoming \<Longrightarrow>
   client_Do rt reqs req =
     (if maxRedirects \<le> Suc (length reqs) then (Inl Too_many_redirects, reqs @ [req])
      else client_Do rt (reqs @ [req]) upcoming)"
  by (subst client_Do.simps) (simp add: CheckRedirect_def)

lemma client_Do_follows:
  "hop rt req k = Some r \<Longrightarrow> rt r = Answer resp \<Longrightarrow> length reqs + k < maxRedirects \<Longrightarrow>
   fst (client_Do rt reqs req) = Inr resp
   \<and> length (snd (client_Do rt reqs req)) = Suc (length reqs + k)"
proof (induction k arbitrary: reqs req)
  case 0
  then show ?case by (simp add: client_Do_Answer)
next
  case (Suc k)
  from Suc.prems(1) obtain upcoming where
    u: "rt req = Redirect upcoming" and h: "hop rt upcoming k = Some r"
    by (auto split: RoundTrip.splits)
  from Suc.prems(3) have l: "length (reqs @ [req]) + k < maxRedirects" by simp
  from Suc.prems(3) have n: "\<not> maxRedirects \<le> Suc (length reqs)" by simp
  from Suc.IH [OF h Suc.prems(2) l] u n show ?case
    by (simp add: client_Do_Redirect)
qed

lemma client_Do_follows_to_failure:
  "hop rt req k = Some r \<Longrightarrow> rt r = Refused \<Longrightarrow> length reqs + k < maxRedirects \<Longrightarrow>
   fst (client_Do rt reqs req) = Inl Transport_failure"
proof (induction k arbitrary: reqs req)
  case 0
  then show ?case by (simp add: client_Do_Refused)
next
  case (Suc k)
  from Suc.prems(1) obtain upcoming where
    u: "rt req = Redirect upcoming" and h: "hop rt upcoming k = Some r"
    by (auto split: RoundTrip.splits)
  from Suc.prems(3) have l: "length (reqs @ [req]) + k < maxRedirects" by simp
  from Suc.prems(3) have n: "\<not> maxRedirects \<le> Suc (length reqs)" by simp
  from Suc.IH [OF h Suc.prems(2) l] u n show ?case
    by (simp add: client_Do_Redirect)
qed

lemma client_Do_stops:
  "hop rt req (Suc k) \<noteq> None \<Longrightarrow> length reqs + Suc k = maxRedirects \<Longrightarrow>
   fst (client_Do rt reqs req) = Inl Too_many_redirects
   \<and> length (snd (client_Do rt reqs req)) = maxRedirects"
proof (induction k arbitrary: reqs req)
  case 0
  from "0.prems"(1) obtain upcoming where u: "rt req = Redirect upcoming"
    by (auto split: RoundTrip.splits)
  with "0.prems"(2) show ?case by (simp add: client_Do_Redirect)
next
  case (Suc k)
  from Suc.prems(1) obtain upcoming where
    u: "rt req = Redirect upcoming" and h: "hop rt upcoming (Suc k) \<noteq> None"
    by (auto split: RoundTrip.splits)
  from Suc.prems(2) have l: "length (reqs @ [req]) + Suc k = maxRedirects" by simp
  from Suc.prems(2) have n: "\<not> maxRedirects \<le> Suc (length reqs)" by simp
  from Suc.IH [OF h l] u n show ?case
    by (simp add: client_Do_Redirect)
qed

lemma client_Do_sends_first:
  "\<exists>rest. snd (client_Do rt reqs req) = reqs @ req # rest"
proof (induction rt reqs req rule: client_Do.induct)
  case (1 rt reqs req)
  show ?case
  proof (cases "rt req")
    case Refused
    then show ?thesis by (simp add: client_Do_Refused)
  next
    case (Redirect upcoming)
    show ?thesis
    proof (cases "maxRedirects \<le> Suc (length reqs)")
      case True
      with Redirect show ?thesis by (simp add: client_Do_Redirect)
    next
      case False
      then have "CheckRedirect upcoming (reqs @ [req]) = None"
        by (simp add: CheckRedirect_def)
      from "1.IH" [OF refl Redirect this] obtain rest where
        "snd (client_Do rt (reqs @ [req]) upcoming) = (reqs @ [req]) @ upcoming # rest" ..
      with Redirect False show ?thesis by (simp add: client_Do_Redirect)
    qed
  next
    case (Answer resp)
    then show ?thesis by (simp add: client_Do_Answer)
  qed
qed

lemma client_Do_bounded:
  "length reqs < maxRedirects \<Longrightarrow> length (snd (client_Do rt reqs req)) \<le> maxRedirects"
proof (induction rt reqs req rule: client_Do.induct)
  case (1 rt reqs req)
  show ?case
  proof (cases "rt req")
    case Refused
    with "1.prems" show ?thesis by (simp add: client_Do_Refused)
  next
    case (Redirect upcoming)
    show ?thesis
    proof (cases "maxRedirects \<le> Suc (length reqs)")
      case True
      with Redirect "1.prems" show ?thesis by (simp add: client_Do_Redirect)
    next
      case False
      then have c: "CheckRedirect upcoming (reqs @ [req]) = None"
        by (simp add: CheckRedirect_def)
      from False have "length (reqs @ [req]) < maxRedirects" by simp
      from "1.IH" [OF refl Redirect c this] Redirect False show ?thesis
        by (simp add: client_Do_Redirect)
    qed
  next
    case (Answer resp)
    with "1.prems" show ?thesis by (simp add: client_Do_Answer)
  qed
qed

subsection \<open>The load client\<close>

lemma writeToDoris_success_iff:
  "(fst (writeToDoris lib config data w) = None) =
     (http_NewRequest_ok lib
        (BEHTTP config @ ''/api/'' @ DB config @ ''/'' @ videoTable @ ''/_stream_load'')
      \<and> (\<exists>body loadResp.
            fst (dorisClient_Do lib
                   (writeToDoris_request lib config data (uuid_New lib (draws w))))
              = Inr (Response 200 (Some body))
            \<and> json_Unmarshal lib body = Some loadResp
            \<and> Status loadResp = ''Success''))"
proof (cases "fst (dorisClient_Do lib
                   (writeToDoris_request lib config data (uuid_New lib (draws w))))")
  case (Inl e)
  then show ?thesis by (simp add: writeToDoris_def Let_def)
next
  case (Inr resp)
  then show ?thesis
    by (cases resp) (auto simp: writeToDoris_def Let_def split: option.splits)
qed

lemma WriteToDoris_success_iff:
  "(fst (WriteToDoris lib dc data w) = None) =
     (http_NewRequest_ok lib (streamURL dc)
      \<and> (\<exists>body loadResp.
            fst (dorisClient_Do lib (WriteToDoris_request dc data (uuid_New lib (draws w))))
              = Inr (Response 200 (Some body))
            \<and> json_Unmarshal lib body = Some loadResp
            \<and> Status loadResp = ''Success''))"
proof (cases "fst (dorisClient_Do lib (WriteToDoris_request dc data (uuid_New lib (draws w))))")
  case (Inl e)
  then show ?thesis by (simp add: WriteToDoris_def Let_def)
next
  case (Inr resp)
  then show ?thesis
    by (cases resp) (auto simp: WriteToDoris_def Let_def split: option.splits)
qed

lemma writeToDoris_errors:
  assumes "http_NewRequest_ok lib
        (BEHTTP config @ ''/api/'' @ DB config @ ''/'' @ videoTable @ ''/_stream_load'')"
    and "fst (dorisClient_Do lib
                (writeToDoris_request lib config data (uuid_New lib (draws w))))
           = Inr (Response c (Some body))"
  shows "c \<noteq> 200 \<Longrightarrow> fst (writeToDoris lib config data w) = Some (Doris_error c body)"
    and "c = 200 \<Longrightarrow> json_Unmarshal lib body = None \<Longrightarrow>
         fst (writeToDoris lib config data w) = Some (Unparseable body)"
    and "c = 200 \<Longrightarrow> json_Unmarshal lib body = Some loadResp \<Longrightarrow> Status loadResp \<noteq> ''Success'' \<Longrightarrow>
         fst (writeToDoris lib config data w)
           = Some (Load_failed (Status loadResp) (Message loadResp) (ErrorURL loadResp))"
  using assms by (simp_all add: writeToDoris_def Let_def)

lemma WriteToDoris_errors:
  assumes "http_NewRequest_ok lib (streamURL dc)"
    and "fst (dorisClient_Do lib (WriteToDoris_request dc data (uuid_New lib (draws w))))
           = Inr (Response c (Some body))"
  shows "c \<noteq> 200 \<Longrightarrow> fst (WriteToDoris lib dc data w) = Some (Doris_error c body)"
    and "c = 200 \<Longrightarrow> json_Unmarshal lib body = None \<Longrightarrow>
         fst (WriteToDoris lib dc data w) = Some (Unparseable body)"
    and "c = 200 \<Longrightarrow> json_Unmarshal lib body = Some loadResp \<Longrightarrow> Status loadResp \<noteq> ''Success'' \<Longrightarrow>
         fst (WriteToDoris lib dc data w)
           = Some (Load_failed (Status loadResp) (Message loadResp) (ErrorURL loadResp))"
  using assms by (simp_all add: WriteToDoris_def Let_def)

lemma writeToDoris_transport_error:
  "http_NewRequest_ok lib
        (BEHTTP config @ ''/api/'' @ DB config @ ''/'' @ videoTable @ ''/_stream_load'') \<Longrightarrow>
   fst (dorisClient_Do lib (writeToDoris_request lib config data (uuid_New lib (draws w))))
     = Inl e \<Longrightarrow>
   fst (writeToDoris lib config data w) = Some (Connection_failed e)"
  by (simp add: writeToDoris_def Let_def)

lemma WriteToDoris_transport_error:
  "http_NewRequest_ok lib (streamURL dc) \<Longrightarrow>
   fst (dorisClient_Do lib (WriteToDoris_request dc data (uuid_New lib (draws w)))) = Inl e \<Longrightarrow>
   fst (WriteToDoris lib dc data w) = Some (Connection_failed e)"
  by (simp add: WriteToDoris_def Let_def)

lemma writeToDoris_world:
  assumes "http_NewRequest_ok lib
        (BEHTTP config @ ''/api/'' @ DB config @ ''/'' @ videoTable @ ''/_stream_load'')"
  shows "snd (writeToDoris lib config data w) =
     w\<lparr>draws := Suc (draws w), submitted := submitted w @ [data],
       wire := wire w @ snd (dorisClient_Do lib
                 (writeToDoris_request lib config data (uuid_New lib (draws w))))\<rparr>"
proof (cases "fst (dorisClient_Do lib
                   (writeToDoris_request lib config data (uuid_New lib (draws w))))")
  case (Inl e)
  with assms show ?thesis by (simp add: writeToDoris_def Let_def)
next
  case (Inr resp)
  with assms show ?thesis
    by (cases resp) (auto simp: writeToDoris_def Let_def split: option.splits)
qed

lemma WriteToDoris_world:
  assumes "http_NewRequest_ok lib (streamURL dc)"
  shows "snd (WriteToDoris lib dc data w) =
     w\<lparr>draws := Suc (draws w), submitted := submitted w @ [data],
       wire := wire w @ snd (dorisClient_Do lib
                 (WriteToDoris_request dc data (uuid_New lib (draws w))))\<rparr>"
proof (cases "fst (dorisClient_Do lib (WriteToDoris_request dc data (uuid_New lib (draws w))))")
  case (Inl e)
  with assms show ?thesis by (simp add: WriteToDoris_def Let_def)
next
  case (Inr resp)
  with assms show ?thesis
    by (cases resp) (auto simp: WriteToDoris_def Let_def split: option.splits)
qed

lemma dorisClient_Do_first:
  "\<exists>rest. snd (dorisClient_Do lib req) = req # rest"
  using client_Do_sends_first [of "transport lib" "[]" req]
  by (simp add: dorisClient_Do_def)

lemma writeToDoris_first_on_wire:
  "http_NewRequest_ok lib
        (BEHTTP config @ ''/api/'' @ DB config @ ''/'' @ videoTable @ ''/_stream_load'') \<Longrightarrow>
   wire (snd (writeToDoris lib config data w)) ! length (wire w)
     = writeToDoris_request lib config data (uuid_New lib (draws w))"
  using dorisClient_Do_first
    [of lib "writeToDoris_request lib config data (uuid_New lib (draws w))"]
  by (auto simp: writeToDoris_world nth_append)

lemma WriteToDoris_first_on_wire:
  "http_NewRequest_ok lib (streamURL dc) \<Longrightarrow>
   wire (snd (WriteToDoris lib dc data w)) ! length (wire w)
     = WriteToDoris_request dc data (uuid_New lib (draws w))"
  using dorisClient_Do_first [of lib "WriteToDoris_request dc data (uuid_New lib (draws w))"]
  by (auto simp: WriteToDoris_world nth_append)

lemma sample_url_ok:
  "http_NewRequest_ok sample_lib (BEHTTP sample_config @ s) = (CHR 0x20 \<notin> set s)"
  by (simp add: sample_lib_def sample_config_def)

lemma sample_request_url:
  "out_URL (writeToDoris_request lib (sample_config\<lparr>DB := db\<rparr>) data label)
     = ''http://be:8040/api/'' @ db @ ''/video_metrics/_stream_load''"
  by (simp add: writeToDoris_request_def sample_config_def videoTable_def Let_def)

lemma sample_Do_video:
  "dorisClient_Do sample_lib (writeToDoris_request sample_lib (sample_config\<lparr>DB := ''video''\<rparr>) data label)
     = (Inr (Response 200 (Some success_ack)),
        [writeToDoris_request sample_lib (sample_config\<lparr>DB := ''video''\<rparr>) data label])"
  by (simp add: dorisClient_Do_def client_Do_Answer sample_lib_def sample_transport_def
      sample_request_url)

lemma sample_Do_strict:
  "dorisClient_Do sample_lib (writeToDoris_request sample_lib (sample_config\<lparr>DB := ''strict''\<rparr>) data label)
     = (Inr (Response 200 (Some fail_ack)),
        [writeToDoris_request sample_lib (sample_config\<lparr>DB := ''strict''\<rparr>) data label])"
  by (simp add: dorisClient_Do_def client_Do_Answer sample_lib_def sample_transport_def
      sample_request_url)

lemma sample_Do_garbled:
  "dorisClient_Do sample_lib (writeToDoris_request sample_lib (sample_config\<lparr>DB := ''garbled''\<rparr>) data label)
     = (Inr (Response 200 (Some ''<html>'')),
        [writeToDoris_request sample_lib (sample_config\<lparr>DB := ''garbled''\<rparr>) data label])"
  by (simp add: dorisClient_Do_def client_Do_Answer sample_lib_def sample_transport_def
      sample_request_url)

lemma sample_Do_gone:
  "dorisClient_Do sample_lib (writeToDoris_request sample_lib (sample_config\<lparr>DB := ''gone''\<rparr>) data label)
     = (Inr (Response 404 (Some ''not found'')),
        [writeToDoris_request sample_lib (sample_config\<lparr>DB := ''gone''\<rparr>) data label])"
  by (simp add: dorisClient_Do_def client_Do_Answer sample_lib_def sample_transport_def
      sample_request_url)

lemma sample_Unmarshal:
  "json_Unmarshal sample_lib success_ack = Some (blank_ack\<lparr>Status := ''Success''\<rparr>)"
  "json_Unmarshal sample_lib fail_ack
     = Some (blank_ack\<lparr>Status := ''Fail'', Message := ''too many filtered rows''\<rparr>)"
  "json_Unmarshal sample_lib ''<html>'' = None"
  by (simp_all add: sample_lib_def success_ack_def fail_ack_def)

text \<open>
  C1. A call of the load client returns no error exactly when the request could be
  created, the client delivered a response with status 200 and a readable body, the
  body parses as a \<open>StreamLoadResponse\<close>, and its \<open>Status\<close> is \<open>Success\<close>. A
  status other than 200, a 200 whose body does not parse, and a parsed status other
  than \<open>Success\<close> each give their own error. Both revisions.
\<close>

theorem load_succeeds_iff_200_and_Success:
  "(let ok = http_NewRequest_ok lib
               (BEHTTP config @ ''/api/'' @ DB config @ ''/'' @ videoTable @ ''/_stream_load'');
        reply = fst (dorisClient_Do lib
                       (writeToDoris_request lib config data (uuid_New lib (draws w))));
        err = fst (writeToDoris lib config data w)
    in ((err = None) =
          (ok \<and> (\<exists>body loadResp. reply = Inr (Response 200 (Some body))
                   \<and> json_Unmarshal lib body = Some loadResp
                   \<and> Status loadResp = ''Success'')))
       \<and> (ok \<and> reply = Inr (Response c (Some body)) \<and> c \<noteq> 200
            \<longrightarrow> err = Some (Doris_error c body))
       \<and> (ok \<and> reply = Inr (Response 200 (Some body)) \<and> json_Unmarshal lib body = None
            \<longrightarrow> err = Some (Unparseable body))
       \<and> (ok \<and> reply = Inr (Response 200 (Some body)) \<and> json_Unmarshal lib body = Some loadResp
             \<and> Status loadResp \<noteq> ''Success''
            \<longrightarrow> err = Some (Load_failed (Status loadResp) (Message loadResp)
                              (ErrorURL loadResp))))
   \<and> (let ok = http_NewRequest_ok lib (streamURL dc);
          reply = fst (dorisClient_Do lib
                         (WriteToDoris_request dc data (uuid_New lib (draws w))));
          err = fst (WriteToDoris lib dc data w)
      in ((err = None) =
            (ok \<and> (\<exists>body loadResp. reply = Inr (Response 200 (Some body))
                     \<and> json_Unmarshal lib body = Some loadResp
                     \<and> Status loadResp = ''Success'')))
         \<and> (ok \<and> reply = Inr (Response c (Some body)) \<and> c \<noteq> 200
              \<longrightarrow> err = Some (Doris_error c body))
         \<and> (ok \<and> reply = Inr (Response 200 (Some body)) \<and> json_Unmarshal lib body = None
              \<longrightarrow> err = Some (Unparseable body))
         \<and> (ok \<and> reply = Inr (Response 200 (Some body))
               \<and> json_Unmarshal lib body = Some loadResp \<and> Status loadResp \<noteq> ''Success''
              \<longrightarrow> err = Some (Load_failed (Status loadResp) (Message loadResp)
                                (ErrorURL loadResp))))"
proof -
  have a1: "(fst (writeToDoris lib config data w) = None) =
     (http_NewRequest_ok lib
        (BEHTTP config @ ''/api/'' @ DB config @ ''/'' @ videoTable @ ''/_stream_load'')
      \<and> (\<exists>body loadResp.
            fst (dorisClient_Do lib
                   (writeToDoris_request lib config data (uuid_New lib (draws w))))
              = Inr (Response 200 (Some body))
            \<and> json_Unmarshal lib body = Some loadResp
            \<and> Status loadResp = ''Success''))"
    by (rule writeToDoris_success_iff)
  have a2: "(fst (WriteToDoris lib dc data w) = None) =
     (http_NewRequest_ok lib (streamURL dc)
      \<and> (\<exists>body loadResp.
            fst (dorisClient_Do lib (WriteToDoris_request dc data (uuid_New lib (draws w))))
              = Inr (Response 200 (Some body))
            \<and> json_Unmarshal lib body = Some loadResp
            \<and> Status loadResp = ''Success''))"
    by (rule WriteToDoris_success_iff)
  note e1 = writeToDoris_errors [of lib config data w]
  note e2 = WriteToDoris_errors [of lib dc data w]
  show ?thesis
    unfolding Let_def
    apply (intro conjI impI)
           apply (rule a1)
          apply (elim conjE, erule (2) e1(1))
         apply (elim conjE, erule (1) e1(2), rule refl, assumption)
        apply (elim conjE, erule (1) e1(3), rule refl, assumption, assumption)
       apply (rule a2)
      apply (elim conjE, erule (2) e2(1))
     apply (elim conjE, erule (1) e2(2), rule refl, assumption)
    apply (elim conjE, erule (1) e2(3), rule refl, assumption, assumption)
    done
qed

lemma sample_client:
  "streamURL (NewDorisClient lib (sample_config\<lparr>DB := db\<rparr>))
     = ''http://be:8040/api/'' @ db @ ''/video_metrics/_stream_load''"
  "authHeader (NewDorisClient lib (sample_config\<lparr>DB := db\<rparr>))
     = ''Basic '' @ base64_EncodeToString lib ''devops:s3cr3t-pw''"
  by (simp_all add: NewDorisClient_def DorisClient_init_def sample_config_def videoTable_def
      Let_def)

lemma sample_client_request_url:
  "out_URL (WriteToDoris_request (NewDorisClient lib (sample_config\<lparr>DB := db\<rparr>)) data label)
     = ''http://be:8040/api/'' @ db @ ''/video_metrics/_stream_load''"
  by (simp add: WriteToDoris_request_def sample_client Let_def)

lemma sample_client_url_ok:
  "http_NewRequest_ok sample_lib (streamURL (NewDorisClient lib (sample_config\<lparr>DB := db\<rparr>)))
     = (CHR 0x20 \<notin> set db)"
  by (simp add: sample_client) (simp add: sample_lib_def)

lemma sample_client_Do_video:
  "dorisClient_Do sample_lib
     (WriteToDoris_request (NewDorisClient lib (sample_config\<lparr>DB := ''video''\<rparr>)) data label)
     = (Inr (Response 200 (Some success_ack)),
        [WriteToDoris_request (NewDorisClient lib (sample_config\<lparr>DB := ''video''\<rparr>)) data label])"
  by (simp add: dorisClient_Do_def client_Do_Answer sample_lib_def sample_transport_def
      sample_client_request_url)

lemma sample_client_Do_strict:
  "dorisClient_Do sample_lib
     (WriteToDoris_request (NewDorisClient lib (sample_config\<lparr>DB := ''strict''\<rparr>)) data label)
     = (Inr (Response 200 (Some fail_ack)),
        [WriteToDoris_request (NewDorisClient lib (sample_config\<lparr>DB := ''strict''\<rparr>)) data label])"
  by (simp add: dorisClient_Do_def client_Do_Answer sample_lib_def sample_transport_def
      sample_client_request_url)

theorem load_succeeds_iff_200_and_Success_witness:
  "fst (writeToDoris sample_lib (sample_config\<lparr>DB := ''video''\<rparr>) sample_body sample_world)
     = None
   \<and> fst (writeToDoris sample_lib (sample_config\<lparr>DB := ''gone''\<rparr>) sample_body sample_world)
     = Some (Doris_error 404 ''not found'')
   \<and> fst (writeToDoris sample_lib (sample_config\<lparr>DB := ''garbled''\<rparr>) sample_body sample_world)
     = Some (Unparseable ''<html>'')
   \<and> fst (writeToDoris sample_lib (sample_config\<lparr>DB := ''strict''\<rparr>) sample_body sample_world)
     = Some (Load_failed ''Fail'' ''too many filtered rows'' [])
   \<and> fst (WriteToDoris sample_lib (NewDorisClient sample_lib (sample_config\<lparr>DB := ''video''\<rparr>))
            sample_body sample_world)
     = None
   \<and> fst (WriteToDoris sample_lib (NewDorisClient sample_lib (sample_config\<lparr>DB := ''strict''\<rparr>))
            sample_body sample_world)
     = Some (Load_failed ''Fail'' ''too many filtered rows'' [])"
proof -
  note [simp] = videoTable_def
  have 1: "fst (writeToDoris sample_lib (sample_config\<lparr>DB := ''video''\<rparr>) sample_body
                  sample_world) = None"
    and 5: "fst (WriteToDoris sample_lib
                   (NewDorisClient sample_lib (sample_config\<lparr>DB := ''video''\<rparr>))
                   sample_body sample_world) = None"
    using load_succeeds_iff_200_and_Success
      [of sample_lib "sample_config\<lparr>DB := ''video''\<rparr>" sample_body sample_world
          200 success_ack "blank_ack\<lparr>Status := ''Success''\<rparr>"
          "NewDorisClient sample_lib (sample_config\<lparr>DB := ''video''\<rparr>)"]
    by (simp_all add: Let_def sample_url_ok sample_Do_video sample_Unmarshal
        sample_client_url_ok sample_client_Do_video)
  have 2: "fst (writeToDoris sample_lib (sample_config\<lparr>DB := ''gone''\<rparr>) sample_body
                  sample_world) = Some (Doris_error 404 ''not found'')"
    using load_succeeds_iff_200_and_Success
      [of sample_lib "sample_config\<lparr>DB := ''gone''\<rparr>" sample_body sample_world
          404 "''not found''" blank_ack
          "NewDorisClient sample_lib (sample_config\<lparr>DB := ''video''\<rparr>)"]
    by (simp add: Let_def sample_url_ok sample_Do_gone)
  have 3: "fst (writeToDoris sample_lib (sample_config\<lparr>DB := ''garbled''\<rparr>) sample_body
                  sample_world) = Some (Unparseable ''<html>'')"
    using load_succeeds_iff_200_and_Success
      [of sample_lib "sample_config\<lparr>DB := ''garbled''\<rparr>" sample_body sample_world
          200 "''<html>''" blank_ack
          "NewDorisClient sample_lib (sample_config\<lparr>DB := ''video''\<rparr>)"]
    by (simp add: Let_def sample_url_ok sample_Do_garbled sample_Unmarshal)
  have 4: "fst (writeToDoris sample_lib (sample_config\<lparr>DB := ''strict''\<rparr>) sample_body
                  sample_world) = Some (Load_failed ''Fail'' ''too many filtered rows'' [])"
    and 6: "fst (WriteToDoris sample_lib
                   (NewDorisClient sample_lib (sample_config\<lparr>DB := ''strict''\<rparr>))
                   sample_body sample_world)
              = Some (Load_failed ''Fail'' ''too many filtered rows'' [])"
    using load_succeeds_iff_200_and_Success
      [of sample_lib "sample_config\<lparr>DB := ''strict''\<rparr>" sample_body sample_world
          200 fail_ack "blank_ack\<lparr>Status := ''Fail'', Message := ''too many filtered rows''\<rparr>"
          "NewDorisClient sample_lib (sample_config\<lparr>DB := ''strict''\<rparr>)"]
    by (simp_all add: Let_def sample_url_ok sample_Do_strict sample_Unmarshal
        sample_client_url_ok sample_client_Do_strict blank_ack_def)
  from 1 2 3 4 5 6 show ?thesis by simp
qed

subsection \<open>The outbound request\<close>

lemma writeToDoris_request_fields:
  "out_Method (writeToDoris_request lib config data label) = ''PUT''"
  "out_URL (writeToDoris_request lib config data label)
     = BEHTTP config @ ''/api/'' @ DB config @ ''/video_metrics/_stream_load''"
  "out_ContentLength (writeToDoris_request lib config data label) = int (length data)"
  "out_Body (writeToDoris_request lib config data label) = data"
  by (simp_all add: writeToDoris_request_def videoTable_def Let_def)

lemma writeToDoris_request_header:
  "out_Header (writeToDoris_request lib config data label) =
     [''Authorization'' \<mapsto>
        ''Basic '' @ base64_EncodeToString lib (User config @ '':'' @ Passwd config),
      ''Content-Type'' \<mapsto> ''application/json'',
      ''Expect'' \<mapsto> ''100-continue'',
      ''label'' \<mapsto> label,
      ''format'' \<mapsto> ''json'',
      ''read_json_by_line'' \<mapsto> ''true'',
      ''columns'' \<mapsto> ''project,event,user_agent'']"
  by (simp add: writeToDoris_request_def Header_Set_def Let_def)

lemma WriteToDoris_request_fields:
  "out_Method (WriteToDoris_request (NewDorisClient lib config) data label) = ''PUT''"
  "out_URL (WriteToDoris_request (NewDorisClient lib config) data label)
     = BEHTTP config @ ''/api/'' @ DB config @ ''/video_metrics/_stream_load''"
  "out_ContentLength (WriteToDoris_request (NewDorisClient lib config) data label)
     = int (length data)"
  "out_Body (WriteToDoris_request (NewDorisClient lib config) data label) = data"
  by (simp_all add: WriteToDoris_request_def NewDorisClient_def DorisClient_init_def
      videoTable_def Let_def)

lemma WriteToDoris_request_header:
  "out_Header (WriteToDoris_request (NewDorisClient lib config) data label) =
     [''Authorization'' \<mapsto>
        ''Basic '' @ base64_EncodeToString lib (User config @ '':'' @ Passwd config),
      ''Content-Type'' \<mapsto> ''application/json'',
      ''Expect'' \<mapsto> ''100-continue'',
      ''label'' \<mapsto> label,
      ''format'' \<mapsto> ''json'',
      ''read_json_by_line'' \<mapsto> ''true'',
      ''columns'' \<mapsto> ''project,event,user_agent,event_time'']"
  by (simp add: WriteToDoris_request_def NewDorisClient_def DorisClient_init_def
      Header_Set_def Let_def)

lemma columns_are_the_fields:
  "comma_separated VideoData_columns = ''project,event,user_agent''"
  "comma_separated VideoData_gin_columns = ''project,event,user_agent,event_time''"
  by (simp_all add: VideoData_columns_def VideoData_gin_columns_def)

lemma streamURL_NewDorisClient:
  "streamURL (NewDorisClient lib config)
     = BEHTTP config @ ''/api/'' @ DB config @ ''/'' @ videoTable @ ''/_stream_load''"
  by (simp add: NewDorisClient_def DorisClient_init_def Let_def)

lemma writeToDoris_no_request:
  "\<not> http_NewRequest_ok lib
        (BEHTTP config @ ''/api/'' @ DB config @ ''/'' @ videoTable @ ''/_stream_load'') \<Longrightarrow>
   wire (snd (writeToDoris lib config data w)) = wire w"
  by (simp add: writeToDoris_def Let_def)

lemma WriteToDoris_no_request:
  "\<not> http_NewRequest_ok lib (streamURL dc) \<Longrightarrow>
   wire (snd (WriteToDoris lib dc data w)) = wire w"
  by (simp add: WriteToDoris_def Let_def)

lemma writeToDoris_wire_grows:
  "http_NewRequest_ok lib
        (BEHTTP config @ ''/api/'' @ DB config @ ''/'' @ videoTable @ ''/_stream_load'') \<Longrightarrow>
   length (wire w) < length (wire (snd (writeToDoris lib config data w)))"
  using dorisClient_Do_first
    [of lib "writeToDoris_request lib config data (uuid_New lib (draws w))"]
  by (auto simp: writeToDoris_world)

lemma WriteToDoris_wire_grows:
  "http_NewRequest_ok lib (streamURL dc) \<Longrightarrow>
   length (wire w) < length (wire (snd (WriteToDoris lib dc data w)))"
  using dorisClient_Do_first [of lib "WriteToDoris_request dc data (uuid_New lib (draws w))"]
  by (auto simp: WriteToDoris_world)

text \<open>
  C5. The request a submission puts on the wire is a \<^verbatim>\<open>PUT\<close> to
  \<^verbatim>\<open>{BEHTTP}/api/{DB}/video_metrics/_stream_load\<close> whose headers are exactly
  \<^verbatim>\<open>Authorization: Basic base64(user:password)\<close>, \<^verbatim>\<open>Content-Type: application/json\<close>,
  \<^verbatim>\<open>Expect: 100-continue\<close>, the label drawn for this call, \<^verbatim>\<open>format: json\<close>,
  \<^verbatim>\<open>read_json_by_line: true\<close> and \<^verbatim>\<open>columns\<close>, the record's fields in order, separated
  by commas; its content length is the number of bytes of the payload, which is its
  body. When \<^verbatim>\<open>http.NewRequest\<close> refuses the URL nothing is sent. Both revisions, the
  second with the client \<open>NewDorisClient\<close> makes.
\<close>

theorem submission_is_stream_load_put:
  "(let q = writeToDoris_request lib config data label
    in out_Method q = ''PUT''
       \<and> out_URL q = BEHTTP config @ ''/api/'' @ DB config @ ''/video_metrics/_stream_load''
       \<and> out_Header q =
            [''Authorization'' \<mapsto>
               ''Basic '' @ base64_EncodeToString lib (User config @ '':'' @ Passwd config),
             ''Content-Type'' \<mapsto> ''application/json'',
             ''Expect'' \<mapsto> ''100-continue'',
             ''label'' \<mapsto> label,
             ''format'' \<mapsto> ''json'',
             ''read_json_by_line'' \<mapsto> ''true'',
             ''columns'' \<mapsto> comma_separated VideoData_columns]
       \<and> out_ContentLength q = int (length data)
       \<and> out_Body q = data)
   \<and> (let q = WriteToDoris_request (NewDorisClient lib config) data label
      in out_Method q = ''PUT''
         \<and> out_URL q = BEHTTP config @ ''/api/'' @ DB config @ ''/video_metrics/_stream_load''
         \<and> out_Header q =
              [''Authorization'' \<mapsto>
                 ''Basic '' @ base64_EncodeToString lib (User config @ '':'' @ Passwd config),
               ''Content-Type'' \<mapsto> ''application/json'',
               ''Expect'' \<mapsto> ''100-continue'',
               ''label'' \<mapsto> label,
               ''format'' \<mapsto> ''json'',
               ''read_json_by_line'' \<mapsto> ''true'',
               ''columns'' \<mapsto> comma_separated VideoData_gin_columns]
         \<and> out_ContentLength q = int (length data)
         \<and> out_Body q = data)
   \<and> (let ok = http_NewRequest_ok lib
                  (BEHTTP config @ ''/api/'' @ DB config @ ''/'' @ videoTable @ ''/_stream_load'');
          w1 = snd (writeToDoris lib config data w);
          w2 = snd (WriteToDoris lib (NewDorisClient lib config) data w)
      in (ok \<longrightarrow>
            length (wire w) < length (wire w1)
            \<and> wire w1 ! length (wire w)
                = writeToDoris_request lib config data (uuid_New lib (draws w))
            \<and> length (wire w) < length (wire w2)
            \<and> wire w2 ! length (wire w)
                = WriteToDoris_request (NewDorisClient lib config) data
                    (uuid_New lib (draws w)))
         \<and> (\<not> ok \<longrightarrow> wire w1 = wire w \<and> wire w2 = wire w))"
proof -
  have ok2: "http_NewRequest_ok lib (streamURL (NewDorisClient lib config)) =
      http_NewRequest_ok lib
        (BEHTTP config @ ''/api/'' @ DB config @ ''/'' @ videoTable @ ''/_stream_load'')"
    by (simp only: streamURL_NewDorisClient)
  show ?thesis
    unfolding Let_def columns_are_the_fields
    apply (intro conjI impI)
                     apply (rule writeToDoris_request_fields)
                    apply (rule writeToDoris_request_fields)
                   apply (rule writeToDoris_request_header)
                  apply (rule writeToDoris_request_fields)
                 apply (rule writeToDoris_request_fields)
                apply (rule WriteToDoris_request_fields)
               apply (rule WriteToDoris_request_fields)
              apply (rule WriteToDoris_request_header)
             apply (rule WriteToDoris_request_fields)
            apply (rule WriteToDoris_request_fields)
           apply (erule writeToDoris_wire_grows)
          apply (erule writeToDoris_first_on_wire)
         apply (rule WriteToDoris_wire_grows, simp add: ok2)
        apply (rule WriteToDoris_first_on_wire, simp add: ok2)
       apply (erule writeToDoris_no_request)
      apply (rule WriteToDoris_no_request, simp add: ok2)
    done
qed

lemma sample_lib_simps:
  "uuid_New sample_lib n = ''label-'' @ replicate n (CHR ''i'')"
  "base64_EncodeToString sample_lib ''devops:s3cr3t-pw'' = ''ZGV2b3BzOnMzY3IzdC1wdw==''"
  "transport sample_lib = sample_transport"
  by (simp_all add: sample_lib_def)

lemma sample_config_simps:
  "BEHTTP (sample_config\<lparr>DB := db\<rparr>) = ''http://be:8040''"
  "DB sample_config = ''video''"
  "User sample_config = ''devops''"
  "Passwd sample_config = ''s3cr3t-pw''"
  "sample_config\<lparr>DB := ''video''\<rparr> = sample_config"
  by (simp_all add: sample_config_def)

lemma sample_world_simps:
  "draws sample_world = 0" "wire sample_world = []" "submitted sample_world = []"
  by (simp_all add: sample_world_def)

theorem submission_is_stream_load_put_witness:
  "(let q = wire (snd (writeToDoris sample_lib sample_config sample_body sample_world)) ! 0
    in out_Method q = ''PUT''
       \<and> out_URL q = ''http://be:8040/api/video/video_metrics/_stream_load''
       \<and> out_Header q ''Authorization'' = Some ''Basic ZGV2b3BzOnMzY3IzdC1wdw==''
       \<and> out_Header q ''label'' = Some ''label-''
       \<and> out_Header q ''columns'' = Some ''project,event,user_agent''
       \<and> out_ContentLength q = 50
       \<and> out_Body q = sample_body)
   \<and> (let q = wire (snd (WriteToDoris sample_lib (NewDorisClient sample_lib sample_config)
                           sample_body sample_world)) ! 0
      in out_Method q = ''PUT''
         \<and> out_URL q = ''http://be:8040/api/video/video_metrics/_stream_load''
         \<and> out_Header q ''Authorization'' = Some ''Basic ZGV2b3BzOnMzY3IzdC1wdw==''
         \<and> out_Header q ''label'' = Some ''label-''
         \<and> out_Header q ''columns'' = Some ''project,event,user_agent,event_time''
         \<and> out_ContentLength q = 50
         \<and> out_Body q = sample_body)"
proof -
  have ok: "http_NewRequest_ok sample_lib
      (BEHTTP sample_config @ ''/api/'' @ DB sample_config @ ''/'' @ videoTable
         @ ''/_stream_load'')"
    by (simp only: sample_url_ok) (simp add: sample_config_simps videoTable_def)
  have b: "BEHTTP sample_config = ''http://be:8040''"
    by (simp add: sample_config_def)
  have l: "length sample_body = 50"
    by (simp add: sample_body_def)
  note t = submission_is_stream_load_put
    [of sample_lib sample_config sample_body "''label-''" sample_world]
  from t ok show ?thesis
    unfolding Let_def
    by (simp add: sample_world_simps sample_lib_simps sample_config_simps b l
        columns_are_the_fields)
qed

subsection \<open>Redirects\<close>

lemma hop_self_redirect:
  "rt q = Redirect q \<Longrightarrow> hop rt q k = Some q"
  by (induction k) simp_all

text \<open>
  The client asks \<open>CheckRedirect\<close> before every redirect, and \<open>CheckRedirect\<close> refuses
  once \<open>maxRedirects = 10\<close> requests have been made. So a call never makes more than ten
  requests; a chain of fewer than ten redirects is followed to its final response; and
  when the first ten requests are all answered by redirects the call stops with an
  error after exactly ten requests, which the load client returns as a connection
  failure. It never returns the response of a partly followed chain.
\<close>

lemma redirects_followed_up_to_bound:
  "maxRedirects = 10
   \<and> length (snd (dorisClient_Do lib req)) \<le> maxRedirects
   \<and> (k < maxRedirects \<and> hop (transport lib) req k = Some r \<and> transport lib r = Answer resp
        \<longrightarrow> fst (dorisClient_Do lib req) = Inr resp
            \<and> length (snd (dorisClient_Do lib req)) = Suc k)
   \<and> (hop (transport lib) req maxRedirects \<noteq> None
        \<longrightarrow> fst (dorisClient_Do lib req) = Inl Too_many_redirects
            \<and> length (snd (dorisClient_Do lib req)) = maxRedirects)
   \<and> (http_NewRequest_ok lib
          (BEHTTP config @ ''/api/'' @ DB config @ ''/'' @ videoTable @ ''/_stream_load'')
        \<and> hop (transport lib) (writeToDoris_request lib config data (uuid_New lib (draws w)))
             maxRedirects \<noteq> None
        \<longrightarrow> fst (writeToDoris lib config data w) = Some (Connection_failed Too_many_redirects))
   \<and> (http_NewRequest_ok lib (streamURL dc)
        \<and> hop (transport lib) (WriteToDoris_request dc data (uuid_New lib (draws w)))
             maxRedirects \<noteq> None
        \<longrightarrow> fst (WriteToDoris lib dc data w) = Some (Connection_failed Too_many_redirects))"
proof -
  have m: "maxRedirects = Suc 9"
    by (simp add: maxRedirects_def)
  have stop: "\<And>q. hop (transport lib) q maxRedirects \<noteq> None \<Longrightarrow>
      fst (dorisClient_Do lib q) = Inl Too_many_redirects
      \<and> length (snd (dorisClient_Do lib q)) = maxRedirects"
  proof -
    fix q
    assume "hop (transport lib) q maxRedirects \<noteq> None"
    then have h: "hop (transport lib) q (Suc 9) \<noteq> None"
      unfolding m .
    have l: "length ([]::LoadRequest list) + Suc 9 = maxRedirects"
      by (simp add: m)
    from client_Do_stops [OF h l]
    show "fst (dorisClient_Do lib q) = Inl Too_many_redirects
      \<and> length (snd (dorisClient_Do lib q)) = maxRedirects"
      by (simp add: dorisClient_Do_def)
  qed
  have bound: "length (snd (dorisClient_Do lib req)) \<le> maxRedirects"
    using client_Do_bounded [of "[]" "transport lib" req]
    by (simp add: dorisClient_Do_def maxRedirects_def)
  have follow: "k < maxRedirects \<and> hop (transport lib) req k = Some r
      \<and> transport lib r = Answer resp
      \<longrightarrow> fst (dorisClient_Do lib req) = Inr resp
          \<and> length (snd (dorisClient_Do lib req)) = Suc k"
    using client_Do_follows [of "transport lib" req k r resp "[]"]
    by (simp add: dorisClient_Do_def)
  have v1: "http_NewRequest_ok lib
          (BEHTTP config @ ''/api/'' @ DB config @ ''/'' @ videoTable @ ''/_stream_load'')
        \<and> hop (transport lib) (writeToDoris_request lib config data (uuid_New lib (draws w)))
             maxRedirects \<noteq> None
        \<longrightarrow> fst (writeToDoris lib config data w) = Some (Connection_failed Too_many_redirects)"
    using stop [of "writeToDoris_request lib config data (uuid_New lib (draws w))"]
    by (auto intro: writeToDoris_transport_error)
  have v2: "http_NewRequest_ok lib (streamURL dc)
        \<and> hop (transport lib) (WriteToDoris_request dc data (uuid_New lib (draws w)))
             maxRedirects \<noteq> None
        \<longrightarrow> fst (WriteToDoris lib dc data w) = Some (Connection_failed Too_many_redirects)"
    using stop [of "WriteToDoris_request dc data (uuid_New lib (draws w))"]
    by (auto intro: WriteToDoris_transport_error)
  have ten: "maxRedirects = 10"
    by (simp add: maxRedirects_def)
  from ten bound follow stop [of req] v1 v2 show ?thesis
    by blast
qed

lemma redirects_followed_up_to_bound_example:
  "fst (writeToDoris sample_lib (sample_config\<lparr>DB := ''loop''\<rparr>) sample_body sample_world)
     = Some (Connection_failed Too_many_redirects)
   \<and> length (wire (snd (writeToDoris sample_lib (sample_config\<lparr>DB := ''loop''\<rparr>) sample_body
                          sample_world))) = 10
   \<and> fst (writeToDoris sample_lib (sample_config\<lparr>DB := ''moved''\<rparr>) sample_body sample_world)
     = None
   \<and> length (wire (snd (writeToDoris sample_lib (sample_config\<lparr>DB := ''moved''\<rparr>) sample_body
                          sample_world))) = 2"
proof -
  let ?loop = "writeToDoris_request sample_lib (sample_config\<lparr>DB := ''loop''\<rparr>) sample_body
                 (uuid_New sample_lib (draws sample_world))"
  let ?moved = "writeToDoris_request sample_lib (sample_config\<lparr>DB := ''moved''\<rparr>) sample_body
                  (uuid_New sample_lib (draws sample_world))"
  let ?video = "?moved\<lparr>out_URL := ''http://be:8040/api/video/video_metrics/_stream_load''\<rparr>"
  have okl: "http_NewRequest_ok sample_lib
      (BEHTTP (sample_config\<lparr>DB := ''loop''\<rparr>) @ ''/api/'' @ DB (sample_config\<lparr>DB := ''loop''\<rparr>)
         @ ''/'' @ videoTable @ ''/_stream_load'')"
    by (simp add: sample_config_def sample_lib_def videoTable_def)
  have okm: "http_NewRequest_ok sample_lib
      (BEHTTP (sample_config\<lparr>DB := ''moved''\<rparr>) @ ''/api/''
         @ DB (sample_config\<lparr>DB := ''moved''\<rparr>) @ ''/'' @ videoTable @ ''/_stream_load'')"
    by (simp add: sample_config_def sample_lib_def videoTable_def)
  have rl: "transport sample_lib ?loop = Redirect ?loop"
    by (simp add: sample_lib_simps sample_transport_def sample_request_url)
  have hl: "hop (transport sample_lib) ?loop maxRedirects \<noteq> None"
    using hop_self_redirect [of "transport sample_lib" ?loop maxRedirects] rl by simp
  have rm: "transport sample_lib ?moved = Redirect ?video"
    by (simp add: sample_lib_simps sample_transport_def sample_request_url)
  have hm: "hop (transport sample_lib) ?moved 1 = Some ?video"
    by (simp add: rm)
  have av: "transport sample_lib ?video = Answer (Response 200 (Some success_ack))"
    by (simp add: sample_lib_simps sample_transport_def)
  have one: "(1::nat) < maxRedirects"
    by (simp add: maxRedirects_def)
  note tl = redirects_followed_up_to_bound
    [of sample_lib ?loop 0 ?loop "Response 200 None" "sample_config\<lparr>DB := ''loop''\<rparr>"
        sample_body sample_world "NewDorisClient sample_lib sample_config"]
  note tm = redirects_followed_up_to_bound
    [of sample_lib ?moved 1 ?video "Response 200 (Some success_ack)"
        "sample_config\<lparr>DB := ''moved''\<rparr>"
        sample_body sample_world "NewDorisClient sample_lib sample_config"]
  from tl okl hl
  have l1: "fst (writeToDoris sample_lib (sample_config\<lparr>DB := ''loop''\<rparr>) sample_body
                  sample_world) = Some (Connection_failed Too_many_redirects)"
    and l2: "length (snd (dorisClient_Do sample_lib ?loop)) = 10"
    by simp_all
  from tm hm av one
  have m1: "fst (dorisClient_Do sample_lib ?moved) = Inr (Response 200 (Some success_ack))"
    and m2: "length (snd (dorisClient_Do sample_lib ?moved)) = 2"
    by simp_all
  from m1 okm have m3: "fst (writeToDoris sample_lib (sample_config\<lparr>DB := ''moved''\<rparr>)
                              sample_body sample_world) = None"
    by (simp add: writeToDoris_success_iff sample_Unmarshal)
  from l1 l2 m2 m3 okl okm show ?thesis
    by (simp add: writeToDoris_world sample_world_simps)
qed

subsection \<open>Labels\<close>



lemma writeToDoris_request_label:
  "out_Header (writeToDoris_request lib config data label) ''label'' = Some label"
  "out_Body (writeToDoris_request lib config data label) = data"
  by (simp_all add: writeToDoris_request_def Header_Set_def Let_def)

lemma WriteToDoris_request_label:
  "out_Header (WriteToDoris_request dc data label) ''label'' = Some label"
  "out_Body (WriteToDoris_request dc data label) = data"
  by (simp_all add: WriteToDoris_request_def Header_Set_def Let_def)




subsection \<open>The request pipeline\<close>

lemma writeToDoris_submitted:
  "submitted (snd (writeToDoris lib config data w)) = submitted w @ [data]"
proof (cases "http_NewRequest_ok lib
        (BEHTTP config @ ''/api/'' @ DB config @ ''/'' @ videoTable @ ''/_stream_load'')")
  case True
  then show ?thesis by (simp add: writeToDoris_world)
next
  case False
  then show ?thesis by (simp add: writeToDoris_def Let_def)
qed

lemma WriteToDoris_submitted:
  "submitted (snd (WriteToDoris lib dc data w)) = submitted w @ [data]"
proof (cases "http_NewRequest_ok lib (streamURL dc)")
  case True
  then show ?thesis by (simp add: WriteToDoris_world)
next
  case False
  then show ?thesis by (simp add: WriteToDoris_def Let_def)
qed

lemma videoHandler_submits:
  assumes "json_Decode lib (ReqBody r) = Some req" "Project req \<noteq> []" "Event req \<noteq> []"
    and "json_Marshal lib (toVideoData req) = Some line"
  shows "snd (videoHandler lib env config r h w)
           = snd (writeToDoris lib config (line @ [CHR 0x0A]) w)"
  using assms by (simp add: videoHandler_def Let_def split: option.split)

lemma App_videoHandler_submits:
  assumes "json_Decode lib (ReqBody r) = Some req" "Project req \<noteq> []" "Event req \<noteq> []"
    and "json_Marshal_gin lib
           \<lparr>project = Project req, event = Event req, user_agent = UserAgent req,
            event_time = time_Format lib (now w) ''2006-01-02 15:04:05''\<rparr> = Some line"
  shows "snd (App_videoHandler lib app r h w)
           = snd (WriteToDoris lib (dorisClient app) (line @ [CHR 0x0A]) w)"
  using assms
  by (simp add: App_videoHandler_def ShouldBindJSON_def Let_def split: option.split)

lemma video_route_passes:
  assumes "Method r = ''POST''"
    and "Header_Get (ReqHeader r) ''Content-Type'' = ''application/json''"
    and "json_Valid lib (ReqBody r)"
  shows "video_route lib env config r h w
           = videoHandler lib env config r (setCORSHeaders env h r) w"
  using assms
  by (simp add: video_route_def corsMiddleware_def validateRequest_def Let_def)

lemma videoHandler_rejects_missing:
  assumes "json_Decode lib (ReqBody r) = Some req" "Project req = [] \<or> Event req = []"
  shows "Code (fst (videoHandler lib env config r h w)) = 400"
    and "snd (videoHandler lib env config r h w) = w"
  using assms by (auto simp: videoHandler_def http_Error_def)

lemma App_videoHandler_rejects_missing:
  assumes "json_Decode lib (ReqBody r) = Some req" "Project req = [] \<or> Event req = []"
  shows "Code (fst (App_videoHandler lib app r h w)) = 400"
    and "snd (App_videoHandler lib app r h w) = w"
  using assms by (auto simp: App_videoHandler_def ShouldBindJSON_def c_JSON_def)

lemma video_route_rejects_missing:
  assumes "Method r = ''POST''"
    and "Header_Get (ReqHeader r) ''Content-Type'' = ''application/json''"
    and "json_Decode lib (ReqBody r) = Some req" "Project req = [] \<or> Event req = []"
  shows "Code (fst (video_route lib env config r h w)) = 400"
    and "snd (video_route lib env config r h w) = w"
  using assms videoHandler_rejects_missing [of lib r req env config "setCORSHeaders env h r" w]
  by (auto simp: video_route_def corsMiddleware_def validateRequest_def Let_def http_Error_def)

text \<open>
  What \<open>validateRequest\<close> rejects (first revision): a request that is not a preflight
  is answered 405 when its method is not \<^verbatim>\<open>POST\<close>, else 415 when its content type is
  not \<^verbatim>\<open>application/json\<close>, else 400 when its body is not valid JSON; in each case the
  state is untouched, so the load client has not run.
\<close>

lemma validateRequest_rejects:
  assumes "Method r \<noteq> ''OPTIONS''"
  shows "Method r \<noteq> ''POST'' \<Longrightarrow>
         Code (fst (video_route lib env config r h w)) = 405
         \<and> snd (video_route lib env config r h w) = w"
    and "Method r = ''POST'' \<Longrightarrow>
         Header_Get (ReqHeader r) ''Content-Type'' \<noteq> ''application/json'' \<Longrightarrow>
         Code (fst (video_route lib env config r h w)) = 415
         \<and> snd (video_route lib env config r h w) = w"
    and "Method r = ''POST'' \<Longrightarrow>
         Header_Get (ReqHeader r) ''Content-Type'' = ''application/json'' \<Longrightarrow>
         \<not> json_Valid lib (ReqBody r) \<Longrightarrow>
         Code (fst (video_route lib env config r h w)) = 400
         \<and> snd (video_route lib env config r h w) = w"
  using assms
  by (simp_all add: video_route_def corsMiddleware_def validateRequest_def Let_def
      http_Error_def)

lemma videoHandler_code:
  assumes "json_Decode lib (ReqBody r) = Some req" "Project req \<noteq> []" "Event req \<noteq> []"
    and "json_Marshal lib (toVideoData req) = Some line"
  shows "Code (fst (videoHandler lib env config r h w))
           = (if fst (writeToDoris lib config (line @ [CHR 0x0A]) w) = None then 202 else 502)"
  using assms
  by (auto simp: videoHandler_def Let_def http_Error_def split: option.split)

lemma App_videoHandler_code:
  assumes "json_Decode lib (ReqBody r) = Some req" "Project req \<noteq> []" "Event req \<noteq> []"
    and "json_Marshal_gin lib
           \<lparr>project = Project req, event = Event req, user_agent = UserAgent req,
            event_time = time_Format lib (now w) ''2006-01-02 15:04:05''\<rparr> = Some line"
  shows "Code (fst (App_videoHandler lib app r h w))
           = (if fst (WriteToDoris lib (dorisClient app) (line @ [CHR 0x0A]) w) = None
              then 200 else 502)"
  using assms
  by (auto simp: App_videoHandler_def ShouldBindJSON_def Let_def c_JSON_def split: option.split)

text \<open>
  C2, as amended. The record the handler submits carries the request's \<open>Project\<close>,
  \<open>Event\<close> and \<open>UserAgent\<close> as \<open>project\<close>, \<open>event\<close> and \<open>user_agent\<close>. In the second
  revision it also carries \<open>event_time\<close>, the reading of the clock at the time of
  handling in the layout \<^verbatim>\<open>2006-01-02 15:04:05\<close>; the first revision's record has no
  such field and its request names three columns. In both revisions the handler calls
  the load client once, with the JSON encoding of the record followed by one line feed,
  which is the body of the request put on the wire; the reply is 202 (first revision)
  or 200 (second) when the load client returns no error and 502 otherwise.
\<close>

theorem record_submitted_as_json_line:
  "project (toVideoData req) = Project req
   \<and> event (toVideoData req) = Event req
   \<and> user_agent (toVideoData req) = UserAgent req
   \<and> ''event_time'' \<notin> set VideoData_columns
   \<and> ''event_time'' \<in> set VideoData_gin_columns
   \<and> (json_Decode lib (ReqBody r) = Some req \<and> Project req \<noteq> [] \<and> Event req \<noteq> []
        \<and> json_Marshal lib (toVideoData req) = Some line
       \<longrightarrow> snd (videoHandler lib env config r h w)
             = snd (writeToDoris lib config (line @ [CHR 0x0A]) w)
           \<and> Code (fst (videoHandler lib env config r h w))
             = (if fst (writeToDoris lib config (line @ [CHR 0x0A]) w) = None
                then 202 else 502)
           \<and> submitted (snd (videoHandler lib env config r h w))
             = submitted w @ [line @ [CHR 0x0A]]
           \<and> (http_NewRequest_ok lib
                 (BEHTTP config @ ''/api/'' @ DB config @ ''/'' @ videoTable @ ''/_stream_load'')
               \<longrightarrow> wire (snd (videoHandler lib env config r h w)) ! length (wire w)
                     = writeToDoris_request lib config (line @ [CHR 0x0A])
                         (uuid_New lib (draws w))
                   \<and> out_Body (wire (snd (videoHandler lib env config r h w)) ! length (wire w))
                     = line @ [CHR 0x0A]
                   \<and> out_Header (wire (snd (videoHandler lib env config r h w))
                                   ! length (wire w)) ''columns''
                     = Some (comma_separated VideoData_columns))
           \<and> (Method r = ''POST''
                \<and> Header_Get (ReqHeader r) ''Content-Type'' = ''application/json''
                \<and> json_Valid lib (ReqBody r)
               \<longrightarrow> snd (video_route lib env config r h w)
                     = snd (writeToDoris lib config (line @ [CHR 0x0A]) w)))
   \<and> (json_Decode lib (ReqBody r) = Some req \<and> Project req \<noteq> [] \<and> Event req \<noteq> []
        \<and> json_Marshal_gin lib
             \<lparr>project = Project req, event = Event req, user_agent = UserAgent req,
              event_time = time_Format lib (now w) ''2006-01-02 15:04:05''\<rparr> = Some line'
       \<longrightarrow> snd (App_videoHandler lib app r h w)
             = snd (WriteToDoris lib (dorisClient app) (line' @ [CHR 0x0A]) w)
           \<and> Code (fst (App_videoHandler lib app r h w))
             = (if fst (WriteToDoris lib (dorisClient app) (line' @ [CHR 0x0A]) w) = None
                then 200 else 502)
           \<and> submitted (snd (App_videoHandler lib app r h w))
             = submitted w @ [line' @ [CHR 0x0A]]
           \<and> (http_NewRequest_ok lib (streamURL (dorisClient app))
               \<longrightarrow> wire (snd (App_videoHandler lib app r h w)) ! length (wire w)
                     = WriteToDoris_request (dorisClient app) (line' @ [CHR 0x0A])
                         (uuid_New lib (draws w))
                   \<and> out_Body (wire (snd (App_videoHandler lib app r h w)) ! length (wire w))
                     = line' @ [CHR 0x0A]
                   \<and> out_Header (wire (snd (App_videoHandler lib app r h w))
                                   ! length (wire w)) ''columns''
                     = Some (comma_separated VideoData_gin_columns)))
   \<and> last (line' @ [CHR 0x0A]) = CHR 0x0A
   \<and> (CHR 0x0A \<notin> set line' \<longrightarrow> count_list (line' @ [CHR 0x0A]) (CHR 0x0A) = 1)"
proof -
  have a: "project (toVideoData req) = Project req
     \<and> event (toVideoData req) = Event req
     \<and> user_agent (toVideoData req) = UserAgent req
     \<and> ''event_time'' \<notin> set VideoData_columns
     \<and> ''event_time'' \<in> set VideoData_gin_columns"
    by (simp add: toVideoData_def VideoData_columns_def VideoData_gin_columns_def)
  have b: "json_Decode lib (ReqBody r) = Some req \<and> Project req \<noteq> [] \<and> Event req \<noteq> []
        \<and> json_Marshal lib (toVideoData req) = Some line
       \<longrightarrow> snd (videoHandler lib env config r h w)
             = snd (writeToDoris lib config (line @ [CHR 0x0A]) w)
           \<and> Code (fst (videoHandler lib env config r h w))
             = (if fst (writeToDoris lib config (line @ [CHR 0x0A]) w) = None
                then 202 else 502)
           \<and> submitted (snd (videoHandler lib env config r h w))
             = submitted w @ [line @ [CHR 0x0A]]
           \<and> (http_NewRequest_ok lib
                 (BEHTTP config @ ''/api/'' @ DB config @ ''/'' @ videoTable @ ''/_stream_load'')
               \<longrightarrow> wire (snd (videoHandler lib env config r h w)) ! length (wire w)
                     = writeToDoris_request lib config (line @ [CHR 0x0A])
                         (uuid_New lib (draws w))
                   \<and> out_Body (wire (snd (videoHandler lib env config r h w)) ! length (wire w))
                     = line @ [CHR 0x0A]
                   \<and> out_Header (wire (snd (videoHandler lib env config r h w))
                                   ! length (wire w)) ''columns''
                     = Some (comma_separated VideoData_columns))
           \<and> (Method r = ''POST''
                \<and> Header_Get (ReqHeader r) ''Content-Type'' = ''application/json''
                \<and> json_Valid lib (ReqBody r)
               \<longrightarrow> snd (video_route lib env config r h w)
                     = snd (writeToDoris lib config (line @ [CHR 0x0A]) w))"
  proof (intro impI, elim conjE)
    assume d: "json_Decode lib (ReqBody r) = Some req" "Project req \<noteq> []" "Event req \<noteq> []"
      "json_Marshal lib (toVideoData req) = Some line"
    note s = videoHandler_submits [OF d]
    show "snd (videoHandler lib env config r h w)
             = snd (writeToDoris lib config (line @ [CHR 0x0A]) w)
           \<and> Code (fst (videoHandler lib env config r h w))
             = (if fst (writeToDoris lib config (line @ [CHR 0x0A]) w) = None
                then 202 else 502)
           \<and> submitted (snd (videoHandler lib env config r h w))
             = submitted w @ [line @ [CHR 0x0A]]
           \<and> (http_NewRequest_ok lib
                 (BEHTTP config @ ''/api/'' @ DB config @ ''/'' @ videoTable @ ''/_stream_load'')
               \<longrightarrow> wire (snd (videoHandler lib env config r h w)) ! length (wire w)
                     = writeToDoris_request lib config (line @ [CHR 0x0A])
                         (uuid_New lib (draws w))
                   \<and> out_Body (wire (snd (videoHandler lib env config r h w)) ! length (wire w))
                     = line @ [CHR 0x0A]
                   \<and> out_Header (wire (snd (videoHandler lib env config r h w))
                                   ! length (wire w)) ''columns''
                     = Some (comma_separated VideoData_columns))
           \<and> (Method r = ''POST''
                \<and> Header_Get (ReqHeader r) ''Content-Type'' = ''application/json''
                \<and> json_Valid lib (ReqBody r)
               \<longrightarrow> snd (video_route lib env config r h w)
                     = snd (writeToDoris lib config (line @ [CHR 0x0A]) w))"
      by (auto simp: s videoHandler_code [OF d] writeToDoris_submitted video_route_passes
          writeToDoris_first_on_wire writeToDoris_request_label writeToDoris_request_header
          columns_are_the_fields)
  qed
  have c: "json_Decode lib (ReqBody r) = Some req \<and> Project req \<noteq> [] \<and> Event req \<noteq> []
        \<and> json_Marshal_gin lib
             \<lparr>project = Project req, event = Event req, user_agent = UserAgent req,
              event_time = time_Format lib (now w) ''2006-01-02 15:04:05''\<rparr> = Some line'
       \<longrightarrow> snd (App_videoHandler lib app r h w)
             = snd (WriteToDoris lib (dorisClient app) (line' @ [CHR 0x0A]) w)
           \<and> Code (fst (App_videoHandler lib app r h w))
             = (if fst (WriteToDoris lib (dorisClient app) (line' @ [CHR 0x0A]) w) = None
                then 200 else 502)
           \<and> submitted (snd (App_videoHandler lib app r h w))
             = submitted w @ [line' @ [CHR 0x0A]]
           \<and> (http_NewRequest_ok lib (streamURL (dorisClient app))
               \<longrightarrow> wire (snd (App_videoHandler lib app r h w)) ! length (wire w)
                     = WriteToDoris_request (dorisClient app) (line' @ [CHR 0x0A])
                         (uuid_New lib (draws w))
                   \<and> out_Body (wire (snd (App_videoHandler lib app r h w)) ! length (wire w))
                     = line' @ [CHR 0x0A]
                   \<and> out_Header (wire (snd (App_videoHandler lib app r h w))
                                   ! length (wire w)) ''columns''
                     = Some (comma_separated VideoData_gin_columns))"
  proof (intro impI, elim conjE)
    assume d: "json_Decode lib (ReqBody r) = Some req" "Project req \<noteq> []" "Event req \<noteq> []"
      "json_Marshal_gin lib
             \<lparr>project = Project req, event = Event req, user_agent = UserAgent req,
              event_time = time_Format lib (now w) ''2006-01-02 15:04:05''\<rparr> = Some line'"
    note s = App_videoHandler_submits [OF d]
    have col: "out_Header (WriteToDoris_request dc data label) ''columns''
                 = Some ''project,event,user_agent,event_time''" for dc data label
      by (simp add: WriteToDoris_request_def Header_Set_def Let_def)
    show "snd (App_videoHandler lib app r h w)
             = snd (WriteToDoris lib (dorisClient app) (line' @ [CHR 0x0A]) w)
           \<and> Code (fst (App_videoHandler lib app r h w))
             = (if fst (WriteToDoris lib (dorisClient app) (line' @ [CHR 0x0A]) w) = None
                then 200 else 502)
           \<and> submitted (snd (App_videoHandler lib app r h w))
             = submitted w @ [line' @ [CHR 0x0A]]
           \<and> (http_NewRequest_ok lib (streamURL (dorisClient app))
               \<longrightarrow> wire (snd (App_videoHandler lib app r h w)) ! length (wire w)
                     = WriteToDoris_request (dorisClient app) (line' @ [CHR 0x0A])
                         (uuid_New lib (draws w))
                   \<and> out_Body (wire (snd (App_videoHandler lib app r h w)) ! length (wire w))
                     = line' @ [CHR 0x0A]
                   \<and> out_Header (wire (snd (App_videoHandler lib app r h w))
                                   ! length (wire w)) ''columns''
                     = Some (comma_separated VideoData_gin_columns))"
      by (auto simp: s App_videoHandler_code [OF d] WriteToDoris_submitted
          WriteToDoris_first_on_wire WriteToDoris_request_label col columns_are_the_fields)
  qed
  have d: "CHR 0x0A \<notin> set line' \<longrightarrow> count_list (line' @ [CHR 0x0A]) (CHR 0x0A) = 1"
    by (simp add: count_list_0_iff)
  have e: "last (line' @ [CHR 0x0A]) = CHR 0x0A"
    by simp
  from a b c d e show ?thesis
    by (elim conjE, intro conjI) assumption+
qed

text \<open>
  C3. A request whose body decodes with an empty \<open>project\<close> or an empty \<open>event\<close> is
  answered 400 and leaves the state as it was: nothing was handed to the load client
  and nothing was sent. This holds for both handlers, and for the first revision's
  \<^verbatim>\<open>/video\<close> route on a \<^verbatim>\<open>POST\<close> with content type \<^verbatim>\<open>application/json\<close>.
\<close>

theorem missing_field_is_400_without_load:
  "json_Decode lib (ReqBody r) = Some req \<and> (Project req = [] \<or> Event req = []) \<longrightarrow>
     Code (fst (videoHandler lib env config r h w)) = 400
     \<and> snd (videoHandler lib env config r h w) = w
     \<and> Code (fst (App_videoHandler lib app r h w)) = 400
     \<and> snd (App_videoHandler lib app r h w) = w
     \<and> setupRouter lib app ''POST'' ''/video'' = Some (App_videoHandler lib app)
     \<and> (Method r = ''POST'' \<and> Header_Get (ReqHeader r) ''Content-Type'' = ''application/json''
          \<longrightarrow> Code (fst (video_route lib env config r h w)) = 400
              \<and> snd (video_route lib env config r h w) = w)"
  using videoHandler_rejects_missing [of lib r req env config h w]
    App_videoHandler_rejects_missing [of lib r req app h w]
    video_route_rejects_missing [of r lib req env config h w]
  by (simp add: setupRouter_def)

lemma sample_decode:
  "json_Decode sample_lib (ReqBody sample_post) = Some sample_request"
  "json_Decode sample_lib (ReqBody sample_text_post) = Some sample_request"
  "json_Decode sample_lib no_project_body
     = Some \<lparr>Project = [], Event = ''play'', UserAgent = []\<rparr>"
  "json_Valid sample_lib (ReqBody sample_post)"
  "Project sample_request \<noteq> []" "Event sample_request \<noteq> []"
  by (simp_all add: sample_lib_def sample_post_def sample_text_post_def sample_request_def
      sample_body_def no_project_body_def)

lemma sample_marshal:
  \<open>json_Marshal sample_lib (toVideoData sample_request)
     = Some ''{"project":"app1","event":"play","user_agent":"UA"}''\<close>
  \<open>json_Marshal_gin sample_lib
       \<lparr>project = Project sample_request, event = Event sample_request,
        user_agent = UserAgent sample_request,
        event_time = time_Format sample_lib (now sample_world) ''2006-01-02 15:04:05''\<rparr>
     = Some ''{"project":"app1","event":"play","user_agent":"UA","event_time":"2026-11-03 10:15:00"}''\<close>
  by (simp_all add: sample_lib_def sample_request_def toVideoData_def)

lemma sample_app_client:
  "http_NewRequest_ok sample_lib (streamURL (dorisClient sample_app))"
  "dorisClient_Do sample_lib (WriteToDoris_request (dorisClient sample_app) data label)
     = (Inr (Response 200 (Some success_ack)),
        [WriteToDoris_request (dorisClient sample_app) data label])"
proof -
  have u: "streamURL (dorisClient sample_app)
             = ''http://be:8040/api/video/video_metrics/_stream_load''"
    by (simp add: sample_app_def streamURL_NewDorisClient sample_config_def videoTable_def)
  show "http_NewRequest_ok sample_lib (streamURL (dorisClient sample_app))"
    unfolding u by (simp add: sample_lib_def)
  have "out_URL (WriteToDoris_request (dorisClient sample_app) data label)
          = ''http://be:8040/api/video/video_metrics/_stream_load''"
    by (simp add: WriteToDoris_request_def Let_def u)
  then show "dorisClient_Do sample_lib (WriteToDoris_request (dorisClient sample_app) data label)
     = (Inr (Response 200 (Some success_ack)),
        [WriteToDoris_request (dorisClient sample_app) data label])"
    by (simp add: dorisClient_Do_def client_Do_Answer sample_lib_simps sample_transport_def)
qed

lemma sample_app_writes:
  "fst (WriteToDoris sample_lib (dorisClient sample_app) data sample_world) = None"
  by (simp add: WriteToDoris_success_iff sample_app_client sample_Unmarshal)

lemma sample_writes:
  "http_NewRequest_ok sample_lib
     (BEHTTP sample_config @ ''/api/'' @ DB sample_config @ ''/'' @ videoTable
        @ ''/_stream_load'')"
  "fst (writeToDoris sample_lib sample_config data sample_world) = None"
proof -
  show ok: "http_NewRequest_ok sample_lib
     (BEHTTP sample_config @ ''/api/'' @ DB sample_config @ ''/'' @ videoTable
        @ ''/_stream_load'')"
    by (simp only: sample_url_ok) (simp add: sample_config_simps videoTable_def)
  note d = sample_Do_video [unfolded sample_config_simps(5)]
  show "fst (writeToDoris sample_lib sample_config data sample_world) = None"
    by (simp add: writeToDoris_success_iff sample_url_ok sample_config_simps videoTable_def
        d sample_Unmarshal)
qed

theorem record_submitted_as_json_line_witness:
  \<open>submitted (snd (video_route sample_lib Map.empty sample_config sample_post Map.empty
                     sample_world))
     = [''{"project":"app1","event":"play","user_agent":"UA"}'' @ [CHR 0x0A]]
   \<and> out_Body (wire (snd (videoHandler sample_lib Map.empty sample_config sample_post Map.empty
                              sample_world)) ! 0)
     = ''{"project":"app1","event":"play","user_agent":"UA"}'' @ [CHR 0x0A]
   \<and> Code (fst (videoHandler sample_lib Map.empty sample_config sample_post Map.empty
                  sample_world)) = 202
   \<and> submitted (snd (App_videoHandler sample_lib sample_app sample_post Map.empty sample_world))
     = [''{"project":"app1","event":"play","user_agent":"UA","event_time":"2026-11-03 10:15:00"}''
          @ [CHR 0x0A]]
   \<and> out_Body (wire (snd (App_videoHandler sample_lib sample_app sample_post Map.empty
                              sample_world)) ! 0)
     = ''{"project":"app1","event":"play","user_agent":"UA","event_time":"2026-11-03 10:15:00"}''
          @ [CHR 0x0A]
   \<and> Code (fst (App_videoHandler sample_lib sample_app sample_post Map.empty sample_world))
     = 200\<close>
proof -
  have m: "Method sample_post = ''POST''"
    and c: "Header_Get (ReqHeader sample_post) ''Content-Type'' = ''application/json''"
    by (simp_all add: sample_post_def Header_Get_def)
  note t = record_submitted_as_json_line
    [where req = sample_request and lib = sample_lib and r = sample_post
       and env = Map.empty and config = sample_config and h = Map.empty
       and w = sample_world and app = sample_app
       and line = \<open>''{"project":"app1","event":"play","user_agent":"UA"}''\<close>
       and line' = \<open>''{"project":"app1","event":"play","user_agent":"UA","event_time":"2026-11-03 10:15:00"}''\<close>]
  have p: "json_Decode sample_lib (ReqBody sample_post) = Some sample_request
      \<and> Project sample_request \<noteq> [] \<and> Event sample_request \<noteq> []
      \<and> json_Marshal sample_lib (toVideoData sample_request)
          = Some ''{\"project\":\"app1\",\"event\":\"play\",\"user_agent\":\"UA\"}''"
    by (simp add: sample_decode sample_marshal)
  have q: "json_Decode sample_lib (ReqBody sample_post) = Some sample_request
      \<and> Project sample_request \<noteq> [] \<and> Event sample_request \<noteq> []
      \<and> json_Marshal_gin sample_lib
           \<lparr>project = Project sample_request, event = Event sample_request,
            user_agent = UserAgent sample_request,
            event_time = time_Format sample_lib (now sample_world) ''2006-01-02 15:04:05''\<rparr>
          = Some ''{\"project\":\"app1\",\"event\":\"play\",\"user_agent\":\"UA\",\"event_time\":\"2026-11-03 10:15:00\"}''"
    by (simp add: sample_decode sample_marshal)
  have v: "Method sample_post = ''POST''
      \<and> Header_Get (ReqHeader sample_post) ''Content-Type'' = ''application/json''
      \<and> json_Valid sample_lib (ReqBody sample_post)"
    by (simp add: m c sample_decode)
  note b = t [THEN conjunct2, THEN conjunct2, THEN conjunct2, THEN conjunct2, THEN conjunct2]
  note v1 = b [THEN conjunct1, THEN mp, OF p]
  note v2 = b [THEN conjunct2, THEN conjunct1, THEN mp, OF q]
  note r1 = v1 [THEN conjunct2, THEN conjunct2, THEN conjunct2, THEN conjunct2, THEN mp, OF v]
  note w1 = v1 [THEN conjunct2, THEN conjunct2, THEN conjunct2, THEN conjunct1, THEN mp,
      OF sample_writes(1)]
  note w2 = v2 [THEN conjunct2, THEN conjunct2, THEN conjunct2, THEN mp,
      OF sample_app_client(1)]
  have 1: "submitted (snd (video_route sample_lib Map.empty sample_config sample_post Map.empty
                     sample_world))
     = [''{\"project\":\"app1\",\"event\":\"play\",\"user_agent\":\"UA\"}'' @ [CHR 0x0A]]"
    unfolding r1 by (simp add: writeToDoris_submitted sample_world_simps)
  have 2: "out_Body (wire (snd (videoHandler sample_lib Map.empty sample_config sample_post
                                  Map.empty sample_world)) ! 0)
     = ''{\"project\":\"app1\",\"event\":\"play\",\"user_agent\":\"UA\"}'' @ [CHR 0x0A]"
    using w1 [THEN conjunct2, THEN conjunct1] by (simp add: sample_world_simps)
  have 3: "Code (fst (videoHandler sample_lib Map.empty sample_config sample_post Map.empty
                  sample_world)) = 202"
    using v1 [THEN conjunct2, THEN conjunct1] by (simp add: sample_writes(2))
  have 4: "submitted (snd (App_videoHandler sample_lib sample_app sample_post Map.empty
                             sample_world))
     = [''{\"project\":\"app1\",\"event\":\"play\",\"user_agent\":\"UA\",\"event_time\":\"2026-11-03 10:15:00\"}''
          @ [CHR 0x0A]]"
    using v2 [THEN conjunct2, THEN conjunct2, THEN conjunct1]
    by (simp add: sample_world_simps)
  have 5: "out_Body (wire (snd (App_videoHandler sample_lib sample_app sample_post Map.empty
                              sample_world)) ! 0)
     = ''{\"project\":\"app1\",\"event\":\"play\",\"user_agent\":\"UA\",\"event_time\":\"2026-11-03 10:15:00\"}''
          @ [CHR 0x0A]"
    using w2 [THEN conjunct2, THEN conjunct1] by (simp add: sample_world_simps)
  have 6: "Code (fst (App_videoHandler sample_lib sample_app sample_post Map.empty
                        sample_world)) = 200"
    using v2 [THEN conjunct2, THEN conjunct1] by (simp add: sample_app_writes)
  from 1 2 3 4 5 6 show ?thesis
    by (intro conjI)
qed

text \<open>
  The first revision at the sample request: the request put on the wire names the
  three columns \<open>project\<close>, \<open>event\<close>, \<open>user_agent\<close>, and its body is the record
  without an \<open>event_time\<close>.
\<close>

theorem net_http_record_has_no_event_time:
  \<open>out_Header (wire (snd (video_route sample_lib Map.empty sample_config sample_post Map.empty
                            sample_world)) ! 0) ''columns''
     = Some ''project,event,user_agent''
   \<and> out_Body (wire (snd (video_route sample_lib Map.empty sample_config sample_post Map.empty
                            sample_world)) ! 0)
     = ''{"project":"app1","event":"play","user_agent":"UA"}'' @ [CHR 0x0A]
   \<and> VideoData_columns = [''project'', ''event'', ''user_agent'']\<close>
proof -
  have m: "Method sample_post = ''POST''"
    and c: "Header_Get (ReqHeader sample_post) ''Content-Type'' = ''application/json''"
    by (simp_all add: sample_post_def Header_Get_def)
  have r: "video_route sample_lib Map.empty sample_config sample_post Map.empty sample_world
      = videoHandler sample_lib Map.empty sample_config sample_post
          (setCORSHeaders Map.empty Map.empty sample_post) sample_world"
    by (rule video_route_passes) (simp_all add: m c sample_decode)
  have s: "snd (videoHandler sample_lib Map.empty sample_config sample_post h sample_world)
      = snd (writeToDoris sample_lib sample_config
               (''{\"project\":\"app1\",\"event\":\"play\",\"user_agent\":\"UA\"}'' @ [CHR 0x0A])
               sample_world)" for h
    by (rule videoHandler_submits [where req = sample_request])
       (simp_all add: sample_decode sample_marshal)
  have f: "wire (snd (writeToDoris sample_lib sample_config data sample_world)) ! 0
      = writeToDoris_request sample_lib sample_config data (uuid_New sample_lib 0)" for data
    using writeToDoris_first_on_wire [OF sample_writes(1), of data sample_world]
    by (simp add: sample_world_simps)
  show ?thesis
    unfolding r s f
    by (simp add: writeToDoris_request_label writeToDoris_request_header
        VideoData_columns_def)
qed

theorem missing_field_is_400_without_load_witness:
  "Code (fst (video_route sample_lib Map.empty sample_config
                (sample_post\<lparr>ReqBody := no_project_body\<rparr>) Map.empty sample_world)) = 400
   \<and> snd (video_route sample_lib Map.empty sample_config
            (sample_post\<lparr>ReqBody := no_project_body\<rparr>) Map.empty sample_world) = sample_world
   \<and> Code (fst (App_videoHandler sample_lib sample_app
                  (sample_post\<lparr>ReqBody := no_project_body\<rparr>) Map.empty sample_world)) = 400
   \<and> snd (App_videoHandler sample_lib sample_app
            (sample_post\<lparr>ReqBody := no_project_body\<rparr>) Map.empty sample_world) = sample_world"
proof -
  have m: "Method (sample_post\<lparr>ReqBody := no_project_body\<rparr>) = ''POST''"
    and c: "Header_Get (ReqHeader (sample_post\<lparr>ReqBody := no_project_body\<rparr>)) ''Content-Type''
              = ''application/json''"
    and d: "json_Decode sample_lib (ReqBody (sample_post\<lparr>ReqBody := no_project_body\<rparr>))
              = Some \<lparr>Project = [], Event = ''play'', UserAgent = []\<rparr>"
    by (simp_all add: sample_post_def Header_Get_def sample_decode)
  note t = missing_field_is_400_without_load
    [where lib = sample_lib and r = "sample_post\<lparr>ReqBody := no_project_body\<rparr>"
       and req = "\<lparr>Project = [], Event = ''play'', UserAgent = []\<rparr>"
       and env = Map.empty and config = sample_config and h = Map.empty
       and w = sample_world and app = sample_app]
  from t m c d show ?thesis
    by simp
qed

text \<open>
  C4. The first revision rejects as stated (\<open>validateRequest_rejects\<close> above). The
  second revision does not: a \<^verbatim>\<open>POST /video\<close> with content type \<^verbatim>\<open>text/plain\<close> and a
  valid body is bound, submitted to the load engine and answered 200, where the first
  revision answers 415 with the state untouched; and its router has no route for
  \<^verbatim>\<open>GET /video\<close>, which the first revision answers 405.
\<close>

theorem gin_revision_accepts_any_content_type:
  \<open>setupRouter sample_lib sample_app ''POST'' ''/video''
     = Some (App_videoHandler sample_lib sample_app)
   \<and> Header_Get (ReqHeader sample_text_post) ''Content-Type'' = ''text/plain''
   \<and> fst (App_videoHandler sample_lib sample_app sample_text_post Map.empty sample_world)
     = \<lparr>Code = 200,
        RespHeader = [''Content-Type'' \<mapsto> ''application/json; charset=utf-8''],
        Content = Json [(''message'', Lit ''Data processed successfully.'')]\<rparr>
   \<and> submitted (snd (App_videoHandler sample_lib sample_app sample_text_post Map.empty
                       sample_world))
     = [''{"project":"app1","event":"play","user_agent":"UA","event_time":"2026-11-03 10:15:00"}''
          @ [CHR 0x0A]]
   \<and> length (wire (snd (App_videoHandler sample_lib sample_app sample_text_post Map.empty
                            sample_world))) = 1
   \<and> setupRouter sample_lib sample_app ''GET'' ''/video'' = None
   \<and> Code (fst (video_route sample_lib Map.empty sample_config sample_text_post Map.empty
                  sample_world)) = 415
   \<and> snd (video_route sample_lib Map.empty sample_config sample_text_post Map.empty
            sample_world) = sample_world
   \<and> Code (fst (video_route sample_lib Map.empty sample_config
                  (sample_post\<lparr>Method := ''GET''\<rparr>) Map.empty sample_world)) = 405
   \<and> snd (video_route sample_lib Map.empty sample_config
            (sample_post\<lparr>Method := ''GET''\<rparr>) Map.empty sample_world) = sample_world\<close>
proof -
  have r: "setupRouter sample_lib sample_app ''POST'' ''/video''
             = Some (App_videoHandler sample_lib sample_app)"
    "setupRouter sample_lib sample_app ''GET'' ''/video'' = None"
    by (simp_all add: setupRouter_def)
  have ct: "Header_Get (ReqHeader sample_text_post) ''Content-Type'' = ''text/plain''"
    by (simp add: sample_text_post_def Header_Get_def)
  have b: "ShouldBindJSON sample_lib sample_text_post = Inr sample_request"
    by (simp add: ShouldBindJSON_def sample_decode)
  have h: "App_videoHandler sample_lib sample_app sample_text_post Map.empty sample_world
      = (c_JSON Map.empty 200 [(''message'', Lit ''Data processed successfully.'')],
         snd (WriteToDoris sample_lib (dorisClient sample_app)
                (''{\"project\":\"app1\",\"event\":\"play\",\"user_agent\":\"UA\",\"event_time\":\"2026-11-03 10:15:00\"}''
                   @ [CHR 0x0A]) sample_world))"
    by (simp add: App_videoHandler_def b sample_marshal Let_def sample_app_writes)
  have w: "length (wire (snd (WriteToDoris sample_lib (dorisClient sample_app) data
                               sample_world))) = 1" for data
    by (simp add: WriteToDoris_world sample_app_client sample_world_simps)
  have v1: "Code (fst (video_route sample_lib Map.empty sample_config sample_text_post Map.empty
                  sample_world)) = 415
     \<and> snd (video_route sample_lib Map.empty sample_config sample_text_post Map.empty
            sample_world) = sample_world"
    using validateRequest_rejects(2)
      [of sample_text_post sample_lib Map.empty sample_config Map.empty sample_world]
    by (simp add: sample_text_post_def Header_Get_def)
  have v2: "Code (fst (video_route sample_lib Map.empty sample_config
                  (sample_post\<lparr>Method := ''GET''\<rparr>) Map.empty sample_world)) = 405
     \<and> snd (video_route sample_lib Map.empty sample_config
            (sample_post\<lparr>Method := ''GET''\<rparr>) Map.empty sample_world) = sample_world"
    using validateRequest_rejects(1)
      [of "sample_post\<lparr>Method := ''GET''\<rparr>" sample_lib Map.empty sample_config Map.empty
          sample_world]
    by simp
  from r ct v1 v2 show ?thesis
    by (simp add: h w WriteToDoris_submitted sample_world_simps c_JSON_def Header_Set_def)
qed

subsection \<open>The tenth redirect\<close>

lemma hop_redirecting_transport:
  "length (out_URL q) + k \<le> 51 + n \<Longrightarrow>
   hop (redirecting_transport n) q k
     = Some (q\<lparr>out_URL := out_URL q @ replicate k (CHR ''/'')\<rparr>)"
proof (induction k arbitrary: q)
  case 0
  then show ?case by simp
next
  case (Suc k)
  from Suc.prems have r: "redirecting_transport n q = Redirect (q\<lparr>out_URL := out_URL q @ ''/''\<rparr>)"
    by (simp add: redirecting_transport_def)
  from Suc.prems have "length (out_URL (q\<lparr>out_URL := out_URL q @ ''/''\<rparr>)) + k \<le> 51 + n"
    by simp
  from Suc.IH [OF this] r show ?case
    by (simp add: replicate_app_Cons_same)
qed

lemma redirecting_transport_answers:
  "length (out_URL q) = 51 \<Longrightarrow>
   redirecting_transport n (q\<lparr>out_URL := out_URL q @ replicate n (CHR ''/'')\<rparr>)
     = Answer (Response 200 (Some success_ack))"
  by (simp add: redirecting_transport_def)

lemma sample_request_url_length:
  "length (out_URL (writeToDoris_request lib sample_config data label)) = 51"
  "length (out_URL (WriteToDoris_request (dorisClient sample_app) data label)) = 51"
  by (simp_all add: writeToDoris_request_def WriteToDoris_request_def sample_app_def
      NewDorisClient_def DorisClient_init_def sample_config_def videoTable_def Let_def)

lemma Do_redirecting_9:
  assumes "length (out_URL q) = 51"
  shows "fst (dorisClient_Do (sample_lib\<lparr>transport := redirecting_transport 9\<rparr>) q)
           = Inr (Response 200 (Some success_ack))"
    and "length (snd (dorisClient_Do (sample_lib\<lparr>transport := redirecting_transport 9\<rparr>) q)) = 10"
proof -
  have h: "hop (redirecting_transport 9) q 9
            = Some (q\<lparr>out_URL := out_URL q @ replicate 9 (CHR ''/'')\<rparr>)"
    using assms by (simp add: hop_redirecting_transport)
  have a: "redirecting_transport 9 (q\<lparr>out_URL := out_URL q @ replicate 9 (CHR ''/'')\<rparr>)
           = Answer (Response 200 (Some success_ack))"
    using assms by (rule redirecting_transport_answers)
  have k: "length ([]::LoadRequest list) + 9 < maxRedirects"
    by (simp add: maxRedirects_def)
  from client_Do_follows [OF h a k]
  show "fst (dorisClient_Do (sample_lib\<lparr>transport := redirecting_transport 9\<rparr>) q)
           = Inr (Response 200 (Some success_ack))"
    and "length (snd (dorisClient_Do (sample_lib\<lparr>transport := redirecting_transport 9\<rparr>) q)) = 10"
    by (simp_all add: dorisClient_Do_def)
qed

lemma Do_redirecting_10:
  assumes "length (out_URL q) = 51"
  shows "fst (dorisClient_Do (sample_lib\<lparr>transport := redirecting_transport 10\<rparr>) q)
           = Inl Too_many_redirects"
    and "length (snd (dorisClient_Do (sample_lib\<lparr>transport := redirecting_transport 10\<rparr>) q)) = 10"
    and "hop (redirecting_transport 10) q 10
           = Some (q\<lparr>out_URL := out_URL q @ replicate 10 (CHR ''/'')\<rparr>)"
    and "redirecting_transport 10 (q\<lparr>out_URL := out_URL q @ replicate 10 (CHR ''/'')\<rparr>)
           = Answer (Response 200 (Some success_ack))"
proof -
  show h: "hop (redirecting_transport 10) q 10
            = Some (q\<lparr>out_URL := out_URL q @ replicate 10 (CHR ''/'')\<rparr>)"
    using assms by (simp add: hop_redirecting_transport)
  show "redirecting_transport 10 (q\<lparr>out_URL := out_URL q @ replicate 10 (CHR ''/'')\<rparr>)
           = Answer (Response 200 (Some success_ack))"
    using assms by (rule redirecting_transport_answers)
  have ten: "(10::nat) = Suc 9" by simp
  have m: "hop (redirecting_transport 10) q (Suc 9) \<noteq> None"
    using h unfolding ten by simp
  have l: "length ([]::LoadRequest list) + Suc 9 = maxRedirects"
    by (simp add: maxRedirects_def)
  from client_Do_stops [OF m l]
  show "fst (dorisClient_Do (sample_lib\<lparr>transport := redirecting_transport 10\<rparr>) q)
           = Inl Too_many_redirects"
    and "length (snd (dorisClient_Do (sample_lib\<lparr>transport := redirecting_transport 10\<rparr>) q)) = 10"
    by (simp_all add: dorisClient_Do_def maxRedirects_def)
qed

text \<open>
  C6. The client is to follow up to ten redirects. \<open>CheckRedirect\<close> is asked with the
  requests already made, and refuses when there are ten of them, so the tenth redirect
  is refused: against a load engine that redirects nine times and then loads, the
  submission succeeds with ten requests; against one that redirects ten times and then
  loads, it makes the same ten requests and fails with a connection error. Both
  revisions.
\<close>

theorem tenth_redirect_is_refused:
  "fst (writeToDoris (sample_lib\<lparr>transport := redirecting_transport 9\<rparr>) sample_config
          sample_body sample_world) = None
   \<and> length (wire (snd (writeToDoris (sample_lib\<lparr>transport := redirecting_transport 9\<rparr>)
                          sample_config sample_body sample_world))) = 10
   \<and> fst (writeToDoris (sample_lib\<lparr>transport := redirecting_transport 10\<rparr>) sample_config
            sample_body sample_world) = Some (Connection_failed Too_many_redirects)
   \<and> length (wire (snd (writeToDoris (sample_lib\<lparr>transport := redirecting_transport 10\<rparr>)
                          sample_config sample_body sample_world))) = 10
   \<and> fst (WriteToDoris (sample_lib\<lparr>transport := redirecting_transport 9\<rparr>)
            (dorisClient sample_app) sample_body sample_world) = None
   \<and> fst (WriteToDoris (sample_lib\<lparr>transport := redirecting_transport 10\<rparr>)
            (dorisClient sample_app) sample_body sample_world)
       = Some (Connection_failed Too_many_redirects)
   \<and> hop (redirecting_transport 10)
         (writeToDoris_request sample_lib sample_config sample_body ''label-'') 10
       = Some ((writeToDoris_request sample_lib sample_config sample_body ''label-'')
                 \<lparr>out_URL := ''http://be:8040/api/video/video_metrics/_stream_load//////////''\<rparr>)
   \<and> redirecting_transport 10
         ((writeToDoris_request sample_lib sample_config sample_body ''label-'')
            \<lparr>out_URL := ''http://be:8040/api/video/video_metrics/_stream_load//////////''\<rparr>)
       = Answer (Response 200 (Some success_ack))"
proof -
  let ?nine = "sample_lib\<lparr>transport := redirecting_transport 9\<rparr>"
  let ?ten = "sample_lib\<lparr>transport := redirecting_transport 10\<rparr>"
  have n1: "fst (writeToDoris ?nine sample_config sample_body sample_world) = None"
    using Do_redirecting_9(1) [OF sample_request_url_length(1)]
    by (simp add: writeToDoris_success_iff sample_url_ok sample_config_simps videoTable_def sample_Unmarshal)
  have n2: "length (wire (snd (writeToDoris ?nine sample_config sample_body sample_world))) = 10"
    using Do_redirecting_9(2) [OF sample_request_url_length(1)]
    by (simp add: writeToDoris_world sample_url_ok sample_config_simps videoTable_def sample_world_simps)
  have t1: "fst (writeToDoris ?ten sample_config sample_body sample_world)
              = Some (Connection_failed Too_many_redirects)"
    by (rule writeToDoris_transport_error)
       (simp_all add: sample_url_ok sample_config_simps videoTable_def Do_redirecting_10(1) [OF sample_request_url_length(1)])
  have t2: "length (wire (snd (writeToDoris ?ten sample_config sample_body sample_world))) = 10"
    using Do_redirecting_10(2) [OF sample_request_url_length(1)]
    by (simp add: writeToDoris_world sample_url_ok sample_config_simps videoTable_def sample_world_simps)
  have n3: "fst (WriteToDoris ?nine (dorisClient sample_app) sample_body sample_world) = None"
    using Do_redirecting_9(1) [OF sample_request_url_length(2)]
    by (simp add: WriteToDoris_success_iff sample_app_client sample_Unmarshal)
  have t3: "fst (WriteToDoris ?ten (dorisClient sample_app) sample_body sample_world)
              = Some (Connection_failed Too_many_redirects)"
    by (rule WriteToDoris_transport_error)
       (simp_all add: sample_app_client Do_redirecting_10(1) [OF sample_request_url_length(2)])
  have u: "out_URL (writeToDoris_request sample_lib sample_config sample_body ''label-'')
             @ replicate 10 (CHR ''/'')
           = ''http://be:8040/api/video/video_metrics/_stream_load//////////''"
    using sample_request_url [of sample_lib "''video''" sample_body "''label-''"]
    by (simp add: sample_config_simps numeral_eq_Suc)
  note d = Do_redirecting_10(3,4)
    [OF sample_request_url_length(1), of sample_lib sample_body "''label-''"]
  from n1 n2 t1 t2 n3 t3 d [unfolded u] show ?thesis
    by simp
qed

end
